theory Spec2Isabelle
  imports Complex_Main "HOL-Library.Sublist" "HOL-Library.Log_Nat" "HOL-Library.AList"
begin

section \<open>JavaScript string helpers\<close>

text \<open>
  Strings are \<^typ>\<open>string\<close>, one \<^typ>\<open>char\<close> per code unit; the model covers the
  code units below 256. There \<open>toLowerCase\<close> moves \<open>A\<close>..\<open>Z\<close> and the capital
  letters U+00C0..U+00DE (U+00D7, the multiplication sign, is no letter), and \<open>trim\<close>
  removes tab, line feed, vertical tab, form feed, carriage return, space and the
  no-break space U+00A0.
\<close>

definition code :: "char \<Rightarrow> nat" where
  "code c = of_char c"

definition lowerChar :: "char \<Rightarrow> char" where
  "lowerChar c =
    (if (65 \<le> code c \<and> code c \<le> 90) \<or> (192 \<le> code c \<and> code c \<le> 222 \<and> code c \<noteq> 215)
     then char_of (code c + 32) else c)"

definition toLowerCase :: "string \<Rightarrow> string" where
  "toLowerCase s = map lowerChar s"

definition isSpace :: "char \<Rightarrow> bool" where
  "isSpace c = ((9 \<le> code c \<and> code c \<le> 13) \<or> code c = 32 \<or> code c = 160)"

definition trim :: "string \<Rightarrow> string" where
  "trim s = rev (dropWhile isSpace (rev (dropWhile isSpace s)))"

text \<open>\<open>.replace(/&/g, 'and')\<close>\<close>

definition replaceAmp :: "string \<Rightarrow> string" where
  "replaceAmp s = concat (map (\<lambda>c. if c = CHR ''&'' then ''and'' else [c]) s)"

text \<open>The character class \<open>[a-z0-9]\<close>.\<close>

definition isSlugChar :: "char \<Rightarrow> bool" where
  "isSlugChar c = ((97 \<le> code c \<and> code c \<le> 122) \<or> (48 \<le> code c \<and> code c \<le> 57))"

text \<open>
  \<open>.replace(/[^a-z0-9]+/g, '-')\<close>: every maximal run of characters outside the class
  becomes one hyphen. The flag says that the scan is inside such a run.
\<close>

fun replaceRuns :: "bool \<Rightarrow> string \<Rightarrow> string" where
  "replaceRuns inRun [] = []"
| "replaceRuns inRun (c # cs) =
     (if isSlugChar c then c # replaceRuns False cs
      else if inRun then replaceRuns True cs
      else CHR ''-'' # replaceRuns True cs)"

text \<open>\<open>.replace(/^-+|-+$/g, '')\<close>\<close>

definition isHyphen :: "char \<Rightarrow> bool" where
  "isHyphen c = (c = CHR ''-'')"

definition stripHyphens :: "string \<Rightarrow> string" where
  "stripHyphens s = rev (dropWhile isHyphen (rev (dropWhile isHyphen s)))"

definition slugify :: "string \<Rightarrow> string" where
  "slugify v = stripHyphens (replaceRuns False (replaceAmp (trim (toLowerCase v))))"

text \<open>\<open>String.prototype.includes\<close>: the needle occurs as a contiguous piece.\<close>

definition includesStr :: "string \<Rightarrow> string \<Rightarrow> bool" where
  "includesStr s needle = sublist needle s"

text \<open>\<open>String(n)\<close> of a non-negative integer: its decimal digits.\<close>

fun showNat :: "nat \<Rightarrow> string" where
  "showNat n = (if n < 10 then [char_of (48 + n)]
                else showNat (n div 10) @ [char_of (48 + n mod 10)])"

declare showNat.simps [simp del]

text \<open>
  \<open>path.join\<close> of a normalised directory and segments that are non-empty and hold
  neither a separator nor a dot segment: the segments joined by \<open>/\<close>.
\<close>

fun pathJoin :: "string \<Rightarrow> string list \<Rightarrow> string" where
  "pathJoin dir [] = dir"
| "pathJoin dir (s # ss) = pathJoin (dir @ ''/'' @ s) ss"


section \<open>The showcase variant generator\<close>

subsection \<open>Static data and options\<close>

definition CATEGORIES :: "string list" where
  "CATEGORIES =
    [''Animals'', ''Colors'', ''Body Parts'', ''Family'', ''Food & Drink'', ''Numbers'',
     ''Actions'', ''Nature'', ''Feelings'', ''Core Responses'', ''Home Objects'',
     ''Daily Words'']"

record pair =
  source :: string
  target :: string

definition DEFAULT_LANGUAGE_PAIRS :: "pair list" where
  "DEFAULT_LANGUAGE_PAIRS =
    [\<lparr>source = ''English'', target = ''Somali''\<rparr>,
     \<lparr>source = ''English'', target = ''Spanish''\<rparr>,
     \<lparr>source = ''English'', target = ''Arabic''\<rparr>,
     \<lparr>source = ''English'', target = ''French''\<rparr>,
     \<lparr>source = ''English'', target = ''Swahili''\<rparr>,
     \<lparr>source = ''English'', target = ''Amharic''\<rparr>]"

text \<open>
  The installation directory \<open>ROOT_DIR\<close> is a parameter \<open>rootDir\<close> of everything that
  builds a path.
\<close>

definition OUTPUT_DIR :: "string \<Rightarrow> string" where
  "OUTPUT_DIR rootDir = pathJoin rootDir [''public'', ''showcase'']"

definition MANIFEST_FILE :: "string \<Rightarrow> string" where
  "MANIFEST_FILE rootDir = pathJoin rootDir [''src'', ''data'', ''showcase-variants.json'']"

definition SCREEN_REFERENCES :: "string \<Rightarrow> string list" where
  "SCREEN_REFERENCES rootDir =
    [pathJoin rootDir [''first100screen1.PNG''], pathJoin rootDir [''first100screen2.PNG''],
     pathJoin rootDir [''first100screen3.PNG'']]"

definition MARKETING_REFERENCES :: "string \<Rightarrow> string list" where
  "MARKETING_REFERENCES rootDir =
    [pathJoin rootDir [''appmarketing01.png''], pathJoin rootDir [''appmarketing02.png''],
     pathJoin rootDir [''appmarketing03.png''], pathJoin rootDir [''appmarketing04.png''],
     pathJoin rootDir [''appmarketing05.png''], pathJoin rootDir [''appmarketing06.png'']]"

text \<open>
  The options object of \<open>parseArgs\<close>. \<open>maxJobs\<close> is \<open>Number(...)\<close> of the flag; the
  model covers its integer values. \<open>categories\<close> and \<open>pairs\<close> are \<open>null\<close> or a list.
\<close>

record options =
  dryRun :: bool
  maxJobs :: int
  editModel :: string
  fallbackModel :: string
  allowFallback :: bool
  imageSize :: string
  quality :: string
  categories :: "string list option"
  pairs :: "pair list option"
  referenceSet :: string
  skipExisting :: bool

definition defaultOptions :: options where
  "defaultOptions =
    \<lparr>dryRun = False, maxJobs = 12, editModel = ''gpt-image-1'',
     fallbackModel = ''gpt-image-1.5'', allowFallback = False, imageSize = ''1024x1024'',
     quality = ''medium'', categories = None, pairs = None,
     referenceSet = ''screens+marketing'', skipExisting = True\<rparr>"

definition resolveReferenceImages :: "string \<Rightarrow> string \<Rightarrow> string list" where
  "resolveReferenceImages rootDir rs =
    (if rs = ''screens'' then SCREEN_REFERENCES rootDir
     else if rs = ''marketing'' then MARKETING_REFERENCES rootDir
     else SCREEN_REFERENCES rootDir @ MARKETING_REFERENCES rootDir)"

subsection \<open>The catalog builder\<close>

record job =
  category :: string
  categorySlug :: string
  pair :: pair
  pairSlug :: string
  outputPath :: string

definition selectedCategories :: "options \<Rightarrow> string list" where
  "selectedCategories opts =
    (case categories opts of
       Some cs \<Rightarrow> if length cs > 0 then cs else CATEGORIES
     | None \<Rightarrow> CATEGORIES)"

definition selectedPairs :: "options \<Rightarrow> pair list" where
  "selectedPairs opts =
    (case pairs opts of
       Some ps \<Rightarrow> if length ps > 0 then ps else DEFAULT_LANGUAGE_PAIRS
     | None \<Rightarrow> DEFAULT_LANGUAGE_PAIRS)"

definition pairSlugOf :: "pair \<Rightarrow> string" where
  "pairSlugOf p = slugify (source p) @ ''-'' @ slugify (target p)"

text \<open>The body of the \<open>while\<close> loop: the job pushed at \<open>index\<close>.\<close>

definition jobAt :: "string \<Rightarrow> string list \<Rightarrow> pair list \<Rightarrow> nat \<Rightarrow> job" where
  "jobAt rootDir cs ps index =
    (let c = cs ! (index mod length cs);
         p = ps ! ((index div length cs) mod length ps);
         pSlug = pairSlugOf p;
         cSlug = slugify c
     in \<lparr>category = c, categorySlug = cSlug, pair = p, pairSlug = pSlug,
         outputPath = pathJoin (OUTPUT_DIR rootDir) [pSlug, cSlug @ ''.png'']\<rparr>)"

function buildJobsLoop ::
  "string \<Rightarrow> string list \<Rightarrow> pair list \<Rightarrow> int \<Rightarrow> job list \<Rightarrow> nat \<Rightarrow> job list" where
  "buildJobsLoop rootDir cs ps targetCount jobs index =
    (if int (length jobs) < targetCount
     then buildJobsLoop rootDir cs ps targetCount (jobs @ [jobAt rootDir cs ps index]) (index + 1)
     else jobs)"
  by pat_completeness auto
termination
  by (relation "measure (\<lambda>(rootDir, cs, ps, targetCount, jobs, index).
        nat (targetCount - int (length jobs)))") auto

declare buildJobsLoop.simps [simp del]

definition buildJobs :: "string \<Rightarrow> options \<Rightarrow> job list" where
  "buildJobs rootDir opts =
    buildJobsLoop rootDir (selectedCategories opts) (selectedPairs opts)
      (max 1 (maxJobs opts)) [] 0"

subsection \<open>The prompt composer of the showcase generator\<close>

text \<open>\<open>Array.prototype.join(' ')\<close>\<close>

fun joinWith :: "string \<Rightarrow> string list \<Rightarrow> string" where
  "joinWith sep [] = []"
| "joinWith sep [x] = x"
| "joinWith sep (x # y # ys) = x @ sep @ joinWith sep (y # ys)"

definition showcase_buildPrompt :: "job \<Rightarrow> string" where
  "showcase_buildPrompt j = joinWith '' ''
    [''Use case: illustration-story.'',
     ''Asset type: toddler language app category illustration.'',
     ''Primary request: create a clean educational visual for the category '' @ [CHR 0x22]
       @ category j @ [CHR 0x22] @ '' for '' @ source (pair j) @ '' + '' @ target (pair j)
       @ ''.'',
     ''Use the attached reference images only as style and composition guidance.'',
     ''Preserve the same child-friendly visual language: rounded flat icons, soft pastel palette, clear spacing, minimal clutter.'',
     ''Include 4 to 6 objects that are unmistakably tied to the category.'',
     ''White background, no app frame, no overlays, no decorative UI chrome.'',
     ''No text, no letters, no numbers, no logo, no watermark.'',
     ''Cultural fit: choose objects that feel familiar and respectful for '' @ target (pair j)
       @ ''-speaking households.'']"

subsection \<open>Errors and the generation endpoint\<close>

text \<open>
  What the scripts read from a caught value: \<open>error.status ?? error.response.status\<close>
  (a number or absent), \<open>error.message\<close>, \<open>error.error.message\<close>, the JSON text of
  \<open>error.error ?? error.response.data\<close>, and \<open>String(error)\<close>.
\<close>

record apiError =
  status :: "nat option"
  message :: string
  innerMessage :: "string option"
  body :: "string option"
  rendered :: string

text \<open>
  \<open>new Error(msg)\<close>; \<open>String\<close> of it is the name alone when the message is empty.
\<close>

definition newError :: "string \<Rightarrow> apiError" where
  "newError msg = \<lparr>status = None, message = msg, innerMessage = None, body = None,
                    rendered = (if msg = [] then ''Error'' else ''Error: '' @ msg)\<rparr>"

text \<open>Truthiness of an optional string and of an optional number.\<close>

definition truthyStr :: "string option \<Rightarrow> bool" where
  "truthyStr v = (case v of None \<Rightarrow> False | Some s \<Rightarrow> s \<noteq> [])"

definition truthyNum :: "nat option \<Rightarrow> bool" where
  "truthyNum v = (case v of None \<Rightarrow> False | Some n \<Rightarrow> n \<noteq> 0)"

definition showcase_formatError :: "apiError \<Rightarrow> string" where
  "showcase_formatError e =
    (let msg = (if truthyStr (innerMessage e) then the (innerMessage e)
                else if message e \<noteq> [] then message e else rendered e)
     in if truthyNum (status e) then msg @ '' (status '' @ showNat (the (status e)) @ '')''
        else msg)"

text \<open>
  A request to the image endpoint and its outcome: the promise rejects with an error,
  or resolves, and then \<open>response.data?.[0]?.b64_json\<close> is a string or absent. The
  endpoint is a function of the number of calls made before, so that it may answer the same
  request differently each time.
\<close>

datatype request =
    ImagesEdit string "string list" string string
  | ImagesGenerate string string string string

datatype response = Rejected apiError | Resolved "string option"

type_synonym endpoint = "nat \<Rightarrow> request \<Rightarrow> response"

subsection \<open>The job executor of the showcase generator\<close>

record manifestItem =
  itemId :: string
  itemCategory :: string
  sourceLanguage :: string
  targetLanguage :: string
  itemPairSlug :: string
  imagePath :: string
  itemMethod :: string
  itemModel :: "string option"

record manifest =
  generatedAt :: string
  manifestOptions :: "string \<times> string \<times> bool \<times> string \<times> string \<times> string"
  references :: "string list"
  items :: "manifestItem list"

text \<open>
  The state of a run: the files on disk (path to content, a file holding the bytes that
  the base64 text decodes to), the number of endpoint calls made, the manifest items
  pushed, the failure counter, and one tag per job for the line printed.
\<close>

datatype outcome = Skipped | Saved string | Failed string

record runState =
  files :: "string \<Rightarrow> string option"
  calls :: nat
  manifestItems :: "manifestItem list"
  failures :: nat
  console :: "outcome list"

definition existsSync :: "(string \<Rightarrow> string option) \<Rightarrow> string \<Rightarrow> bool" where
  "existsSync fs p = (fs p \<noteq> None)"

definition itemOf :: "job \<Rightarrow> string \<Rightarrow> string option \<Rightarrow> manifestItem" where
  "itemOf j meth mdl =
    \<lparr>itemId = pairSlug j @ ''-'' @ categorySlug j, itemCategory = category j,
     sourceLanguage = source (pair j), targetLanguage = target (pair j),
     itemPairSlug = pairSlug j,
     imagePath = ''/showcase/'' @ pairSlug j @ ''/'' @ categorySlug j @ ''.png'',
     itemMethod = meth, itemModel = mdl\<rparr>"

text \<open>The result object of \<open>generateFromEdit\<close> and \<open>generateFallback\<close>.\<close>

record generated =
  imageB64 :: "string option"
  genMethod :: string
  genModel :: string

datatype 'a attempt = Threw apiError | Returned 'a

text \<open>
  The inner \<open>try\<close>: the edit call, and in its \<open>catch\<close> the fallback call when
  \<open>allowFallback\<close> is set. The second component is the number of calls made.
\<close>

definition generateFromEdit ::
  "endpoint \<Rightarrow> nat \<Rightarrow> string list \<Rightarrow> job \<Rightarrow> options \<Rightarrow> generated attempt" where
  "generateFromEdit api n refs j opts =
    (case api n (ImagesEdit (editModel opts) refs (showcase_buildPrompt j) (imageSize opts)) of
       Rejected e \<Rightarrow> Threw e
     | Resolved b \<Rightarrow> Returned \<lparr>imageB64 = b, genMethod = ''edit'', genModel = editModel opts\<rparr>)"

definition generateFallback :: "endpoint \<Rightarrow> nat \<Rightarrow> job \<Rightarrow> options \<Rightarrow> generated attempt" where
  "generateFallback api n j opts =
    (case api n (ImagesGenerate (fallbackModel opts) (showcase_buildPrompt j) (imageSize opts)
                   (quality opts)) of
       Rejected e \<Rightarrow> Threw e
     | Resolved b \<Rightarrow>
         Returned \<lparr>imageB64 = b, genMethod = ''generate-fallback'',
                   genModel = fallbackModel opts\<rparr>)"

definition generateResult ::
  "endpoint \<Rightarrow> nat \<Rightarrow> string list \<Rightarrow> job \<Rightarrow> options \<Rightarrow> generated attempt \<times> nat" where
  "generateResult api n refs j opts =
    (case generateFromEdit api n refs j opts of
       Returned r \<Rightarrow> (Returned r, n + 1)
     | Threw editError \<Rightarrow>
         if \<not> allowFallback opts
         then (Threw (newError (''edit failed: '' @ showcase_formatError editError)), n + 1)
         else (generateFallback api (n + 1) j opts, n + 2))"

text \<open>One turn of the \<open>for\<close> loop over the jobs.\<close>

definition processJob :: "endpoint \<Rightarrow> options \<Rightarrow> string list \<Rightarrow> job \<Rightarrow> runState \<Rightarrow> runState" where
  "processJob api opts refs j st =
    (if skipExisting opts \<and> existsSync (files st) (outputPath j)
     then st\<lparr>manifestItems := manifestItems st @ [itemOf j ''existing'' None],
             console := console st @ [Skipped]\<rparr>
     else
       (case generateResult api (calls st) refs j opts of
          (Threw e, n) \<Rightarrow>
            st\<lparr>calls := n, failures := failures st + 1,
               console := console st @ [Failed (showcase_formatError e)]\<rparr>
        | (Returned r, n) \<Rightarrow>
            if \<not> truthyStr (imageB64 r)
            then st\<lparr>calls := n, failures := failures st + 1,
                    console := console st
                      @ [Failed (showcase_formatError (newError ''No image data returned.''))]\<rparr>
            else st\<lparr>files := (files st)(outputPath j \<mapsto> the (imageB64 r)),
                    calls := n,
                    manifestItems := manifestItems st
                      @ [itemOf j (genMethod r) (Some (genModel r))],
                    console := console st @ [Saved (genMethod r)]\<rparr>))"

fun processJobs :: "endpoint \<Rightarrow> options \<Rightarrow> string list \<Rightarrow> job list \<Rightarrow> runState \<Rightarrow> runState" where
  "processJobs api opts refs [] st = st"
| "processJobs api opts refs (j # js) st = processJobs api opts refs js (processJob api opts refs j st)"

text \<open>\<open>path.relative(ROOT_DIR, p)\<close> for a path below the rootDir.\<close>

definition relative :: "string \<Rightarrow> string \<Rightarrow> string" where
  "relative rootDir p = (if prefix (rootDir @ ''/'') p then drop (length rootDir + 1) p else p)"

definition saveManifest :: "string \<Rightarrow> string \<Rightarrow> manifestItem list \<Rightarrow> options \<Rightarrow> string list \<Rightarrow> manifest" where
  "saveManifest rootDir now its opts refs =
    \<lparr>generatedAt = now,
     manifestOptions = (editModel opts, fallbackModel opts, allowFallback opts, imageSize opts,
                        quality opts, referenceSet opts),
     references = map (relative rootDir) refs,
     items = its\<rparr>"

text \<open>
  The environment of a run: the credential, the clock and the endpoint. The result of
  \<open>main\<close>: the exit status of the process, the files afterwards, the manifest document when
  one was written, the calls made, the failure count and the per-job lines.
\<close>

record env =
  OPENAI_API_KEY :: "string option"
  now :: string
  api :: endpoint

record runResult =
  exitCode :: nat
  filesAfter :: "string \<Rightarrow> string option"
  written :: "manifest option"
  callsMade :: nat
  failureCount :: nat
  jobLines :: "outcome list"

definition initState :: "(string \<Rightarrow> string option) \<Rightarrow> runState" where
  "initState fs = \<lparr>files = fs, calls = 0, manifestItems = [], failures = 0, console = []\<rparr>"

definition aborted :: "nat \<Rightarrow> (string \<Rightarrow> string option) \<Rightarrow> runResult" where
  "aborted c fs = \<lparr>exitCode = c, filesAfter = fs, written = None, callsMade = 0,
                   failureCount = 0, jobLines = []\<rparr>"

definition showcase_main :: "string \<Rightarrow> env \<Rightarrow> options \<Rightarrow> (string \<Rightarrow> string option) \<Rightarrow> runResult" where
  "showcase_main rootDir e opts fs =
    (let refs = resolveReferenceImages rootDir (referenceSet opts);
         jobs = buildJobs rootDir opts;
         missingReferences = filter (\<lambda>p. \<not> existsSync fs p) refs
     in if length missingReferences > 0 then aborted 1 fs
        else if dryRun opts then aborted 0 fs
        else if \<not> truthyStr (OPENAI_API_KEY e) then aborted 1 fs
        else
          (let st = processJobs (api e) opts refs jobs (initState fs)
           in \<lparr>exitCode = (if failures st > 0 then 2 else 0),
               filesAfter = files st,
               written = Some (saveManifest rootDir (now e) (manifestItems st) opts refs),
               callsMade = calls st,
               failureCount = failures st,
               jobLines = console st\<rparr>))"

text \<open>The (subject, target) combination of a job.\<close>

definition combination :: "job \<Rightarrow> string \<times> pair" where
  "combination j = (category j, pair j)"

text \<open>
  Options that select three categories and two language pairs and ask for \<open>n\<close> jobs
  (\<open>--categories=c1,c2,c3 --pairs=... --max-jobs=n\<close>).
\<close>

definition showcase3x2 ::
  "options \<Rightarrow> string \<Rightarrow> string \<Rightarrow> string \<Rightarrow> pair \<Rightarrow> pair \<Rightarrow> int \<Rightarrow> options" where
  "showcase3x2 base c1 c2 c3 p1 p2 n =
     base\<lparr>maxJobs := n, categories := Some [c1, c2, c3], pairs := Some [p1, p2]\<rparr>"

subsection \<open>Comparing two runs\<close>

text \<open>
  The items that a run pushes when it skips every job, and what an item says about the
  asset apart from how it was produced (\<open>method\<close>, \<open>model\<close>).
\<close>

definition existingItems :: "job list \<Rightarrow> manifestItem list" where
  "existingItems jobs = map (\<lambda>j. itemOf j ''existing'' None) jobs"

definition assetOf :: "manifestItem \<Rightarrow> string \<times> string \<times> string \<times> string \<times> string \<times> string" where
  "assetOf it = (itemId it, itemCategory it, sourceLanguage it, targetLanguage it,
                 itemPairSlug it, imagePath it)"

text \<open>
  A concrete run: one job, the three screen references on disk, an endpoint that always
  returns an image, and one that always rejects.
\<close>

definition exampleOptions :: options where
  "exampleOptions = defaultOptions\<lparr>maxJobs := 1, referenceSet := ''screens''\<rparr>"

definition exampleFiles :: "string \<Rightarrow> string option" where
  "exampleFiles = map_of [(''/repo/first100screen1.PNG'', ''png1''),
     (''/repo/first100screen2.PNG'', ''png2''), (''/repo/first100screen3.PNG'', ''png3'')]"

definition alwaysImage :: endpoint where
  "alwaysImage n r = Resolved (Some ''aGVsbG8='')"

definition alwaysRejects :: endpoint where
  "alwaysRejects n r = Rejected (newError ''Connection error.'')"

definition exampleEnv :: env where
  "exampleEnv = \<lparr>OPENAI_API_KEY = Some ''sk-test'', now = ''2026-01-01T00:00:00.000Z'',
                  api = alwaysImage\<rparr>"

section \<open>Numbers\<close>

text \<open>
  A JavaScript number is an IEEE 754 double. A finite double is modelled by the rational
  it denotes, and an arithmetic operation by the exact operation followed by rounding to
  the nearest double, ties to even, with 53 significant bits. The exponent range is not
  bounded: the model is the double arithmetic wherever no overflow or underflow occurs,
  which is so for every price computed from a job count.
\<close>

text \<open>The exponent of a positive rational: the \<open>e\<close> with \<open>2^e \<le> x < 2^(e+1)\<close>.\<close>

definition expo :: "rat \<Rightarrow> int" where
  "expo x = (let (a, b) = quotient_of x; e0 = bitlen a - bitlen b
             in if 2 powi e0 \<le> x then e0 else e0 - 1)"

definition roundEven :: "rat \<Rightarrow> int" where
  "roundEven q = (let f = \<lfloor>q\<rfloor>; r = q - of_int f
                  in if r < 1 / 2 then f
                     else if 1 / 2 < r then f + 1
                     else if even f then f else f + 1)"

definition roundDouble :: "rat \<Rightarrow> rat" where
  "roundDouble x =
     (if x = 0 then 0
      else let e = expo \<bar>x\<bar>
           in sgn x * of_int (roundEven (\<bar>x\<bar> * 2 powi (52 - e))) * 2 powi (e - 52))"

text \<open>Multiplication, addition and a decimal literal of the source.\<close>

definition dmul :: "rat \<Rightarrow> rat \<Rightarrow> rat" where
  "dmul a b = roundDouble (a * b)"

definition dadd :: "rat \<Rightarrow> rat \<Rightarrow> rat" where
  "dadd a b = roundDouble (a + b)"

definition literal :: "rat \<Rightarrow> rat" where
  "literal q = roundDouble q"

section \<open>The cost estimators\<close>

text \<open>\<open>estimateCost\<close> of \<open>illustration-prompts.js\<close>.\<close>

record costEstimate =
  estimated :: rat
  minCost :: rat
  maxCost :: rat
  count :: nat

definition estimateCost :: "nat \<Rightarrow> costEstimate" where
  "estimateCost n =
    (let avgCostPerImage = literal (4 / 100)
     in \<lparr>estimated = dmul (of_nat n) avgCostPerImage,
         minCost = dmul (of_nat n) (literal (2 / 100)),
         maxCost = dmul (of_nat n) (literal (5 / 100)),
         count = n\<rparr>)"

text \<open>\<open>estimateCost\<close> of the showcase generator.\<close>

record showcaseCost =
  scMin :: rat
  scEstimated :: rat
  scMax :: rat

definition showcase_estimateCost :: "nat \<Rightarrow> showcaseCost" where
  "showcase_estimateCost jobCount =
    (let averagePerImage = literal (5 / 100)
     in \<lparr>scMin = dmul (of_nat jobCount) (literal (3 / 100)),
         scEstimated = dmul (of_nat jobCount) averagePerImage,
         scMax = dmul (of_nat jobCount) (literal (8 / 100))\<rparr>)"

section \<open>The illustration prompts\<close>

text \<open>The style guide: the template literal, trimmed.\<close>

definition STYLE_GUIDE :: string where
  "STYLE_GUIDE = trim (''\<newline>''
    @ ''Flat vector illustration style.\<newline>''
    @ ''Soft rounded shapes with smooth curves.\<newline>''
    @ ''Simple geometry, minimal detail.\<newline>''
    @ ''Bright but gentle colors (pastel-leaning, nothing harsh).\<newline>''
    @ ''No harsh contrast or sharp edges.\<newline>''
    @ ''Friendly, neutral, non-scary aesthetic suitable for toddlers.\<newline>''
    @ ''High clarity at small sizes (32px-64px must be recognizable).\<newline>''
    @ ''No text, letters, numbers, or symbols anywhere in the illustration.\<newline>''
    @ ''No scenery, backgrounds, or environmental context.\<newline>''
    @ ''No ground line, floor shadows, or drop shadows.\<newline>''
    @ ''No strokes or outlines around shapes.\<newline>''
    @ ''Minimal shading - flat colors preferred, subtle gradients allowed sparingly.\<newline>''
    @ ''Rounded corners on all applicable shapes.\<newline>''
    @ ''Single isolated object centered on a pure white or transparent background.\<newline>''
    @ ''Style similar to modern educational apps for young children.\<newline>'')"

record object =
  objId :: string
  prompt :: string
  objCategory :: string

definition OBJECTS :: "object list" where
  "OBJECTS =
    [\<lparr>objId = ''cat'',
      prompt = ''A sitting cat facing forward, orange tabby with simple friendly round eyes'',
      objCategory = ''animals''\<rparr>,
     \<lparr>objId = ''dog'',
      prompt = ''A sitting dog facing forward, golden retriever puppy with happy expression and tongue out slightly'',
      objCategory = ''animals''\<rparr>,
     \<lparr>objId = ''bird'',
      prompt = ''A small songbird perched, bright blue with orange chest, side profile'',
      objCategory = ''animals''\<rparr>,
     \<lparr>objId = ''fish'',
      prompt = ''A single goldfish swimming, orange with simple fins, side view'',
      objCategory = ''animals''\<rparr>,
     \<lparr>objId = ''butterfly'',
      prompt = ''A butterfly with wings spread open, symmetrical, blue and purple wings'',
      objCategory = ''animals''\<rparr>,
     \<lparr>objId = ''elephant'',
      prompt = ''A baby elephant facing slightly to the side, gray with big ears and small trunk raised'',
      objCategory = ''animals''\<rparr>,
     \<lparr>objId = ''rabbit'',
      prompt = ''A sitting bunny rabbit, white with long ears up, facing forward'',
      objCategory = ''animals''\<rparr>,
     \<lparr>objId = ''duck'',
      prompt = ''A yellow rubber duck or duckling, classic friendly shape, side view'',
      objCategory = ''animals''\<rparr>,
     \<lparr>objId = ''apple'',
      prompt = ''A single red apple with a small green leaf on a short brown stem'',
      objCategory = ''food''\<rparr>,
     \<lparr>objId = ''banana'',
      prompt = ''A single yellow banana, slightly curved, bright and ripe'',
      objCategory = ''food''\<rparr>,
     \<lparr>objId = ''orange'',
      prompt = ''A whole orange fruit with small dimpled texture and tiny green leaf'',
      objCategory = ''food''\<rparr>,
     \<lparr>objId = ''strawberry'',
      prompt = ''A single red strawberry with green leaves on top and visible seeds'',
      objCategory = ''food''\<rparr>,
     \<lparr>objId = ''carrot'',
      prompt = ''An orange carrot with green leafy top, tapered shape'',
      objCategory = ''food''\<rparr>,
     \<lparr>objId = ''cookie'',
      prompt = ''A round chocolate chip cookie, golden brown with visible chips'',
      objCategory = ''food''\<rparr>,
     \<lparr>objId = ''milk'',
      prompt = ''A glass of white milk, simple cylindrical glass shape'',
      objCategory = ''food''\<rparr>,
     \<lparr>objId = ''bread'',
      prompt = ''A slice of bread, light tan/beige color, simple rectangular shape with rounded top'',
      objCategory = ''food''\<rparr>,
     \<lparr>objId = ''ball'',
      prompt = ''A simple round ball with two-tone colors, red and white sections like a beach ball'',
      objCategory = ''toys''\<rparr>,
     \<lparr>objId = ''blocks'',
      prompt = ''Three colorful stacking blocks in red, blue, and yellow, arranged in a small stack'',
      objCategory = ''toys''\<rparr>,
     \<lparr>objId = ''teddy'',
      prompt = ''A sitting teddy bear, brown plush with round ears and friendly face'',
      objCategory = ''toys''\<rparr>,
     \<lparr>objId = ''car'',
      prompt = ''A simple toy car, red with visible wheels, side profile'',
      objCategory = ''toys''\<rparr>,
     \<lparr>objId = ''star'',
      prompt = ''A five-pointed star, bright yellow/gold, filled solid'',
      objCategory = ''shapes''\<rparr>,
     \<lparr>objId = ''heart'',
      prompt = ''A simple heart shape, solid pink/red, symmetrical'',
      objCategory = ''shapes''\<rparr>,
     \<lparr>objId = ''moon'',
      prompt = ''A crescent moon, pale yellow/cream color, simple curved shape'',
      objCategory = ''nature''\<rparr>,
     \<lparr>objId = ''sun'',
      prompt = ''A happy sun with simple rays extending outward, warm yellow/orange'',
      objCategory = ''nature''\<rparr>,
     \<lparr>objId = ''flower'',
      prompt = ''A simple daisy flower, white petals with yellow center, single green stem'',
      objCategory = ''nature''\<rparr>,
     \<lparr>objId = ''tree'',
      prompt = ''A simple tree with brown trunk and round green leafy top, stylized'',
      objCategory = ''nature''\<rparr>,
     \<lparr>objId = ''cloud'',
      prompt = ''A fluffy white cloud, simple rounded cumulus shape'',
      objCategory = ''nature''\<rparr>,
     \<lparr>objId = ''rainbow'',
      prompt = ''A simple rainbow arc with traditional ROYGBIV colors, semicircle'',
      objCategory = ''nature''\<rparr>,
     \<lparr>objId = ''shoe'',
      prompt = ''A single child sneaker shoe, red with white sole, side view'',
      objCategory = ''clothing''\<rparr>,
     \<lparr>objId = ''hat'',
      prompt = ''A simple baseball cap, blue, side/front view'',
      objCategory = ''clothing''\<rparr>,
     \<lparr>objId = ''cup'',
      prompt = ''A simple drinking cup or mug, blue with a handle, side view'',
      objCategory = ''household''\<rparr>,
     \<lparr>objId = ''book'',
      prompt = ''A closed book, red cover, slightly angled view showing spine'',
      objCategory = ''household''\<rparr>,
     \<lparr>objId = ''chair'',
      prompt = ''A simple wooden chair, brown, front-angled view'',
      objCategory = ''household''\<rparr>]"

text \<open>The prompt composer: \<open>`${object.prompt}. ${STYLE_GUIDE}`\<close>.\<close>

definition buildPrompt :: "object \<Rightarrow> string" where
  "buildPrompt obj = prompt obj @ ''. '' @ STYLE_GUIDE"

definition getObjectsByCategory :: "string \<Rightarrow> object list" where
  "getObjectsByCategory c = filter (\<lambda>obj. objCategory obj = c) OBJECTS"

section \<open>The illustration generator\<close>

subsection \<open>Configuration and models\<close>

record config =
  cfgSize :: string
  cfgQuality :: string
  responseFormat :: string
  batchDelay :: nat

definition CONFIG :: config where
  "CONFIG = \<lparr>cfgSize = ''1024x1024'', cfgQuality = ''medium'', responseFormat = ''b64_json'',
             batchDelay = 1000\<rparr>"

definition DEFAULT_MODEL :: string where
  "DEFAULT_MODEL = ''gpt-image-1.5''"

definition GPT_IMAGE_MODELS :: "string list" where
  "GPT_IMAGE_MODELS = [''gpt-image-1.5'', ''gpt-image-1'', ''gpt-image-1-mini'']"

definition FALLBACK_MODEL :: string where
  "FALLBACK_MODEL = ''gpt-image-1''"

text \<open>\<open>String.prototype.startsWith\<close>\<close>

definition startsWith :: "string \<Rightarrow> string \<Rightarrow> bool" where
  "startsWith s p = prefix p s"

definition isGptImageModel :: "string \<Rightarrow> bool" where
  "isGptImageModel m = (startsWith m ''gpt-image-'' \<or> m \<in> set GPT_IMAGE_MODELS)"

definition isGptImage15 :: "string \<Rightarrow> bool" where
  "isGptImage15 m = (m = ''gpt-image-1.5'' \<or> startsWith m ''gpt-image-1.5-'')"

text \<open>The options object of the illustration generator's \<open>parseArgs\<close>.\<close>

record ilOptions =
  ilDryRun :: bool
  only :: "string list option"
  ilCategory :: "string option"
  verbose :: bool
  ilModel :: "string option"
  autoModel :: bool

definition ilDefaultOptions :: ilOptions where
  "ilDefaultOptions = \<lparr>ilDryRun = False, only = None, ilCategory = None, verbose = False,
                       ilModel = None, autoModel = False\<rparr>"

subsection \<open>The asset client adapter\<close>

record generateOptions =
  gModel :: string
  gPrompt :: "string option"
  gN :: nat
  gSize :: string
  gQuality :: string
  response_format :: "string option"

definition buildGenerateOptions :: "string \<Rightarrow> generateOptions" where
  "buildGenerateOptions m =
    \<lparr>gModel = m, gPrompt = None, gN = 1, gSize = cfgSize CONFIG, gQuality = cfgQuality CONFIG,
     response_format = (if \<not> isGptImageModel m then Some (responseFormat CONFIG) else None)\<rparr>"

text \<open>
  \<open>openai.images.generate\<close>: the promise rejects, or resolves with a \<open>data\<close> array
  whose entries may carry \<open>b64_json\<close> and \<open>revised_prompt\<close>.
\<close>

record imageDatum =
  b64_json :: "string option"
  revised_prompt :: "string option"

datatype genResponse = GenRejected apiError | GenResolved "imageDatum list"

type_synonym generator = "nat \<Rightarrow> generateOptions \<Rightarrow> genResponse"

text \<open>The \<open>TypeError\<close> of reading a property of \<open>undefined\<close> or decoding \<open>undefined\<close>.\<close>

definition typeError :: "string \<Rightarrow> apiError" where
  "typeError msg = \<lparr>status = None, message = msg, innerMessage = None, body = None,
                     rendered = (if msg = [] then ''TypeError'' else ''TypeError: '' @ msg)\<rparr>"

text \<open>\<open>{ success: true, buffer, revisedPrompt }\<close> or \<open>{ success: false, error }\<close>\<close>

datatype genResult = Success string "string option" | Failure string

definition tryGenerate :: "generator \<Rightarrow> nat \<Rightarrow> string \<Rightarrow> string \<Rightarrow> (string \<times> string option) attempt" where
  "tryGenerate gen n m p =
    (case gen n ((buildGenerateOptions m)\<lparr>gPrompt := Some p\<rparr>) of
       GenRejected e \<Rightarrow> Threw e
     | GenResolved [] \<Rightarrow>
         Threw (typeError ''Cannot read properties of undefined (reading 'b64_json')'')
     | GenResolved (d # ds) \<Rightarrow>
         (case b64_json d of
            None \<Rightarrow> Threw (typeError
              (''The first argument must be of type string or an instance of Buffer, ''
               @ ''ArrayBuffer, or Array or an Array-like Object. Received undefined''))
          | Some imageData \<Rightarrow>
              Returned (imageData,
                 if truthyStr (revised_prompt d) then revised_prompt d else None)))"

definition formatError :: "apiError \<Rightarrow> string" where
  "formatError e =
    (let msg = (if message e \<noteq> [] then message e else rendered e);
         bodyStr = (if truthyStr (body e) then '' '' @ the (body e) else [])
     in if truthyNum (status e) then msg @ '' ('' @ showNat (the (status e)) @ '')'' @ bodyStr
        else msg @ bodyStr)"

text \<open>\<open>String(error?.status ?? error?.response?.status ?? '').includes('404')\<close>\<close>

definition is404 :: "apiError \<Rightarrow> bool" where
  "is404 e = includesStr (case status e of None \<Rightarrow> [] | Some k \<Rightarrow> showNat k) ''404''"

text \<open>
  \<open>generateIllustration\<close>: the result, and the number of endpoint calls made when it
  returns.
\<close>

definition generateIllustration :: "generator \<Rightarrow> nat \<Rightarrow> object \<Rightarrow> string \<Rightarrow> genResult \<times> nat" where
  "generateIllustration gen n obj m =
    (let p = buildPrompt obj
     in case tryGenerate gen n m p of
          Returned (buffer, revised) \<Rightarrow> (Success buffer revised, n + 1)
        | Threw error \<Rightarrow>
            if is404 error \<and> isGptImage15 m
            then (case tryGenerate gen (n + 1) FALLBACK_MODEL p of
                    Returned (buffer, revised) \<Rightarrow> (Success buffer revised, n + 2)
                  | Threw fallbackError \<Rightarrow> (Failure (formatError fallbackError), n + 2))
            else (Failure (formatError error), n + 1))"

subsection \<open>Concrete failures and endpoints\<close>

text \<open>
  An authentication failure (status 401) and a missing model (status 404); an endpoint
  that rejects every edit with the first and answers every generation with an image; a
  generator that always fails with the first, and one that knows the fallback model only.
\<close>

definition authError :: apiError where
  "authError = \<lparr>status = Some 401, message = ''401 Incorrect API key provided'',
                 innerMessage = None, body = None,
                 rendered = ''Error: 401 Incorrect API key provided''\<rparr>"

definition notFoundError :: apiError where
  "notFoundError = \<lparr>status = Some 404, message = ''404 The model does not exist'',
                     innerMessage = None, body = None,
                     rendered = ''Error: 404 The model does not exist''\<rparr>"

definition rejectEdits :: endpoint where
  "rejectEdits n r =
    (case r of ImagesEdit m imgs p s \<Rightarrow> Rejected authError
             | ImagesGenerate m p s q \<Rightarrow> Resolved (Some ''aGVsbG8=''))"

definition genAuthFails :: generator where
  "genAuthFails n opts = GenRejected authError"

definition genOnlyFallbackModel :: generator where
  "genOnlyFallbackModel n opts =
    (if gModel opts = FALLBACK_MODEL
     then GenResolved [\<lparr>b64_json = Some ''aGVsbG8='', revised_prompt = None\<rparr>]
     else GenRejected notFoundError)"

definition fallbackOptions :: options where
  "fallbackOptions = exampleOptions\<lparr>allowFallback := True\<rparr>"

definition firstJob :: job where
  "firstJob = jobAt ''/repo'' CATEGORIES DEFAULT_LANGUAGE_PAIRS 0"

subsection \<open>Choosing the image model\<close>

text \<open>Strings compared by code unit, as \<open>Array.prototype.sort\<close> does by default.\<close>

fun codeLess :: "string \<Rightarrow> string \<Rightarrow> bool" where
  "codeLess [] [] = False"
| "codeLess [] (d # ds) = True"
| "codeLess (c # cs) [] = False"
| "codeLess (c # cs) (d # ds) = (code c < code d \<or> (code c = code d \<and> codeLess cs ds))"

text \<open>
  \<open>ids.slice().sort().pop() || null\<close>: the greatest id, unless there is none or it is
  the empty string.
\<close>

definition pickLatest :: "string list \<Rightarrow> string option" where
  "pickLatest ids =
    (case ids of
       [] \<Rightarrow> None
     | x # xs \<Rightarrow>
         (let m = fold (\<lambda>y acc. if codeLess acc y then y else acc) xs x
          in if m = [] then None else Some m))"

text \<open>\<open>ids[0] || null\<close>\<close>

definition pickFirst :: "string list \<Rightarrow> string option" where
  "pickFirst ids = (case ids of [] \<Rightarrow> None | x # xs \<Rightarrow> if x = [] then None else Some x)"

definition priority :: "(string \<times> (string list \<Rightarrow> string option)) list" where
  "priority =
    [(''gpt-image-1.5-'', pickLatest), (''gpt-image-1.5'', pickFirst),
     (''gpt-image-1-'', pickLatest), (''gpt-image-1'', pickFirst),
     (''gpt-image-1-mini'', pickFirst), (''dall-e-3'', pickFirst), (''dall-e-2'', pickFirst)]"

fun firstSelected ::
  "(string \<times> (string list \<Rightarrow> string option)) list \<Rightarrow> string list \<Rightarrow> string option" where
  "firstSelected [] modelIds = None"
| "firstSelected ((pre, pick) # rest) modelIds =
     (case pick (filter (\<lambda>i. startsWith i pre) modelIds) of
        Some selected \<Rightarrow> Some selected
      | None \<Rightarrow> firstSelected rest modelIds)"

definition pickPreferredImageModel :: "string list option \<Rightarrow> string \<Rightarrow> string" where
  "pickPreferredImageModel modelIds preferredModel =
    (case modelIds of
       None \<Rightarrow> preferredModel
     | Some ids \<Rightarrow>
         if length ids = 0 then preferredModel
         else if preferredModel \<noteq> [] \<and> preferredModel \<in> set ids then preferredModel
         else (case firstSelected priority ids of
                 Some selected \<Rightarrow> selected
               | None \<Rightarrow> if preferredModel \<noteq> [] then preferredModel else hd ids))"

text \<open>\<open>a || b\<close> on strings that may be absent.\<close>

definition orElse :: "string option \<Rightarrow> string \<Rightarrow> string" where
  "orElse a b = (if truthyStr a then the a else b)"

text \<open>
  \<open>listModelIds\<close> answers \<open>null\<close> when the listing throws; \<open>resolveImageModel\<close>
  makes that one call.
\<close>

definition listModelIds :: "(nat \<Rightarrow> string list attempt) \<Rightarrow> nat \<Rightarrow> string list option" where
  "listModelIds list n = (case list n of Returned ids \<Rightarrow> Some ids | Threw e \<Rightarrow> None)"

definition resolveImageModel :: "(nat \<Rightarrow> string list attempt) \<Rightarrow> nat \<Rightarrow> string \<Rightarrow> string" where
  "resolveImageModel list n requestedModel =
    pickPreferredImageModel (listModelIds list n) (orElse (Some requestedModel) DEFAULT_MODEL)"

subsection \<open>The job executor of the illustration generator\<close>

definition IL_OUTPUT_DIR :: "string \<Rightarrow> string" where
  "IL_OUTPUT_DIR rootDir = pathJoin rootDir [''public'', ''illustrations'']"

record logObject =
  logId :: string
  logSuccess :: bool
  logFile :: "string option"
  logError :: "string option"

record runLog =
  timestamp :: string
  objects :: "logObject list"
  successCount :: nat
  failCount :: nat
  estimatedCost :: rat

record generationLog =
  runs :: "runLog list"
  totalSpent :: rat
  totalGenerated :: nat

record illustration =
  illId :: string
  illCategory :: string
  illFile :: string
  illGeneratedAt :: string

text \<open>
  What the generator reads and writes: the files, the generation log and the manifest
  (each document absent or parsed).
\<close>

record ilWorld =
  ilFiles :: "string \<Rightarrow> string option"
  logDoc :: "generationLog option"
  manifestDoc :: "illustration list option"

record ilEnv =
  IL_OPENAI_API_KEY :: "string option"
  OPENAI_IMAGE_MODEL :: "string option"
  ilNow :: string
  listModels :: "nat \<Rightarrow> string list attempt"
  generate :: generator

definition loadLog :: "ilWorld \<Rightarrow> generationLog" where
  "loadLog w = (case logDoc w of Some l \<Rightarrow> l
                | None \<Rightarrow> \<lparr>runs = [], totalSpent = 0, totalGenerated = 0\<rparr>)"

definition loadManifest :: "ilWorld \<Rightarrow> illustration list" where
  "loadManifest w = (case manifestDoc w of Some m \<Rightarrow> m | None \<Rightarrow> [])"

text \<open>
  \<open>findIndex\<close> by id, then replace the entry found or push: the first entry with the
  id is replaced.
\<close>

fun upsert :: "illustration \<Rightarrow> illustration list \<Rightarrow> illustration list" where
  "upsert entry [] = [entry]"
| "upsert entry (x # xs) = (if illId x = illId entry then entry # xs else x # upsert entry xs)"

record ilState =
  stFiles :: "string \<Rightarrow> string option"
  stCalls :: nat
  stRun :: runLog
  stManifest :: "illustration list"

text \<open>One turn of the loop over \<open>objectsToGenerate\<close>.\<close>

definition illustrateOne :: "string \<Rightarrow> ilEnv \<Rightarrow> string \<Rightarrow> object \<Rightarrow> ilState \<Rightarrow> ilState" where
  "illustrateOne rootDir e m obj st =
    (case generateIllustration (generate e) (stCalls st) obj m of
       (Success buffer revised, n) \<Rightarrow>
         (let filePath = pathJoin (IL_OUTPUT_DIR rootDir) [objId obj @ ''.png'']
          in st\<lparr>stFiles := (stFiles st)(filePath \<mapsto> buffer),
                stCalls := n,
                stRun := (stRun st)\<lparr>objects := objects (stRun st)
                    @ [\<lparr>logId = objId obj, logSuccess = True,
                         logFile = Some (relative rootDir filePath), logError = None\<rparr>],
                  successCount := successCount (stRun st) + 1\<rparr>,
                stManifest := upsert
                  \<lparr>illId = objId obj, illCategory = objCategory obj,
                   illFile = ''/illustrations/'' @ objId obj @ ''.png'',
                   illGeneratedAt = ilNow e\<rparr> (stManifest st)\<rparr>)
     | (Failure err, n) \<Rightarrow>
         st\<lparr>stCalls := n,
            stRun := (stRun st)\<lparr>objects := objects (stRun st)
                @ [\<lparr>logId = objId obj, logSuccess = False, logFile = None,
                     logError = Some err\<rparr>],
              failCount := failCount (stRun st) + 1\<rparr>\<rparr>)"

fun illustrateAll :: "string \<Rightarrow> ilEnv \<Rightarrow> string \<Rightarrow> object list \<Rightarrow> ilState \<Rightarrow> ilState" where
  "illustrateAll rootDir e m [] st = st"
| "illustrateAll rootDir e m (obj # objs) st =
     illustrateAll rootDir e m objs (illustrateOne rootDir e m obj st)"

text \<open>
  The objects to generate, or the status of \<open>process.exit\<close> when an explicit selection
  matches nothing. \<open>--only\<close> wins over \<open>--category\<close>; an empty category string counts
  as no selection.
\<close>

definition objectsToGenerate :: "ilOptions \<Rightarrow> nat + object list" where
  "objectsToGenerate opts =
    (case only opts of
       Some ids \<Rightarrow>
         (let sel = filter (\<lambda>obj. objId obj \<in> set ids) OBJECTS
          in if length sel = 0 then Inl 1 else Inr sel)
     | None \<Rightarrow>
         if truthyStr (ilCategory opts)
         then (let sel = getObjectsByCategory (the (ilCategory opts))
               in if length sel = 0 then Inl 1 else Inr sel)
         else Inr OBJECTS)"

record ilResult =
  ilExitCode :: nat
  worldAfter :: ilWorld
  ilCallsMade :: nat
  lastRun :: "runLog option"

definition ilStopped :: "nat \<Rightarrow> ilWorld \<Rightarrow> ilResult" where
  "ilStopped c w = \<lparr>ilExitCode = c, worldAfter = w, ilCallsMade = 0, lastRun = None\<rparr>"

text \<open>
  \<open>main\<close> of the illustration generator. After the loop it appends the run to the log,
  saves log and manifest and prints the summary; it sets no exit status, so a run that
  reaches the end exits with 0.
\<close>

definition illustrations_main :: "string \<Rightarrow> ilEnv \<Rightarrow> ilOptions \<Rightarrow> ilWorld \<Rightarrow> ilResult" where
  "illustrations_main rootDir e opts w =
    (let requestedModel = orElse (ilModel opts) (orElse (OPENAI_IMAGE_MODEL e) DEFAULT_MODEL)
     in case objectsToGenerate opts of
          Inl c \<Rightarrow> ilStopped c w
        | Inr objs \<Rightarrow>
            (let cost = estimateCost (length objs)
             in if ilDryRun opts then ilStopped 0 w
                else if \<not> truthyStr (IL_OPENAI_API_KEY e) then ilStopped 1 w
                else
                  (let m = resolveImageModel (listModels e) 0 requestedModel;
                       log = loadLog w;
                       st = illustrateAll rootDir e m objs
                              \<lparr>stFiles = ilFiles w, stCalls = 1,
                               stRun = \<lparr>timestamp = ilNow e, objects = [], successCount = 0,
                                        failCount = 0, estimatedCost = estimated cost\<rparr>,
                               stManifest = loadManifest w\<rparr>;
                       log' = log\<lparr>runs := runs log @ [stRun st],
                                 totalSpent := dadd (totalSpent log) (estimated cost),
                                 totalGenerated := totalGenerated log + successCount (stRun st)\<rparr>
                   in \<lparr>ilExitCode = 0,
                       worldAfter = \<lparr>ilFiles = stFiles st, logDoc = Some log',
                                     manifestDoc = Some (stManifest st)\<rparr>,
                       ilCallsMade = stCalls st,
                       lastRun = Some (stRun st)\<rparr>)))"

text \<open>
  A concrete run of the illustration generator: \<open>--only=cat,dog\<close>, a model listing
  with \<open>gpt-image-1\<close>, and a generator whose first answer is an image and whose later
  answers are a server error.
\<close>

definition serverError :: apiError where
  "serverError = \<lparr>status = Some 500, message = ''500 Internal server error'',
                   innerMessage = None, body = None,
                   rendered = ''Error: 500 Internal server error''\<rparr>"

definition genOnceThenFails :: generator where
  "genOnceThenFails n opts =
    (if n = 1 then GenResolved [\<lparr>b64_json = Some ''aGVsbG8='', revised_prompt = None\<rparr>]
     else GenRejected serverError)"

definition catDogEnv :: ilEnv where
  "catDogEnv = \<lparr>IL_OPENAI_API_KEY = Some ''sk-test'', OPENAI_IMAGE_MODEL = None,
                 ilNow = ''2026-01-01T00:00:00.000Z'',
                 listModels = (\<lambda>n. Returned [''gpt-image-1'']),
                 generate = genOnceThenFails\<rparr>"

definition catDogOptions :: ilOptions where
  "catDogOptions = ilDefaultOptions\<lparr>only := Some [''cat'', ''dog'']\<rparr>"

definition emptyWorld :: ilWorld where
  "emptyWorld = \<lparr>ilFiles = Map.empty, logDoc = None, manifestDoc = None\<rparr>"

section \<open>The word translation runner\<close>

subsection \<open>Documents\<close>

text \<open>
  A JSON object is an association list in key order; \<open>obj[k] = v\<close> replaces the value of
  an existing key in place and appends a new key (\<open>AList.update\<close>). Word ids are not
  names of \<open>Object.prototype\<close> members and not integer-like.
\<close>

record language =
  slug :: string
  langName :: string
  nativeName :: "string option"








subsection \<open>The adapter of the translation runner\<close>

record translationEntry =
  entryId :: string
  english :: string







subsection \<open>Reordering the written document\<close>






subsection \<open>The executor of the translation runner\<close>













subsection \<open>Auxiliary notions for the translation runner\<close>













section \<open>The catalog builder: size and expansion order\<close>

lemma buildJobsLoop_closed:
  "buildJobsLoop rootDir cs ps t jobs index =
     jobs @ map (\<lambda>k. jobAt rootDir cs ps (index + k)) [0..<nat (t - int (length jobs))]"
proof (induction rootDir cs ps t jobs index rule: buildJobsLoop.induct)
  case (1 rootDir cs ps t jobs index)
  show ?case
  proof (cases "int (length jobs) < t")
    case True
    then obtain m where m: "nat (t - int (length jobs)) = Suc m"
      by (cases "nat (t - int (length jobs))") auto
    then have m': "nat (t - int (length (jobs @ [jobAt rootDir cs ps index]))) = m"
      by simp
    have "buildJobsLoop rootDir cs ps t jobs index =
            buildJobsLoop rootDir cs ps t (jobs @ [jobAt rootDir cs ps index]) (index + 1)"
      using True by (subst buildJobsLoop.simps) simp
    also have "\<dots> = (jobs @ [jobAt rootDir cs ps index]) @
            map (\<lambda>k. jobAt rootDir cs ps (index + 1 + k)) [0..<m]"
      using "1.IH" [OF True] m' by simp
    also have "\<dots> = jobs @ map (\<lambda>k. jobAt rootDir cs ps (index + k)) [0..<Suc m]"
    proof -
      have "[0..<Suc m] = 0 # map Suc [0..<m]"
        by (simp add: upt_conv_Cons map_Suc_upt del: upt_Suc)
      then show ?thesis by (simp add: o_def del: upt_Suc)
    qed
    finally show ?thesis using m by simp
  next
    case False
    then show ?thesis by (subst buildJobsLoop.simps) simp
  qed
qed

lemma buildJobs_closed:
  "buildJobs rootDir opts =
     map (jobAt rootDir (selectedCategories opts) (selectedPairs opts))
       [0..<nat (max 1 (maxJobs opts))]"
  by (simp add: buildJobs_def buildJobsLoop_closed)

text \<open>
  C9: for every integer value of \<open>maxJobs\<close> the showcase catalog builder returns
  exactly \<open>max(1, maxJobs)\<close> jobs; a request of zero or of a negative count yields one
  job, so the catalog is never empty.
\<close>

theorem buildJobs_count:
  "int (length (buildJobs rootDir opts)) = max 1 (maxJobs opts)
   \<and> buildJobs rootDir opts \<noteq> []
   \<and> length (buildJobs rootDir (opts\<lparr>maxJobs := 0\<rparr>)) = 1
   \<and> length (buildJobs rootDir (opts\<lparr>maxJobs := - int k\<rparr>)) = 1"
proof -
  have len: "\<And>o'. int (length (buildJobs rootDir o')) = max 1 (maxJobs o')"
    by (simp add: buildJobs_closed)
  have "int (length (buildJobs rootDir opts)) \<noteq> 0"
    unfolding len by simp
  moreover have "int (length (buildJobs rootDir (opts\<lparr>maxJobs := 0\<rparr>))) = 1"
    unfolding len by simp
  moreover have "int (length (buildJobs rootDir (opts\<lparr>maxJobs := - int k\<rparr>))) = 1"
    unfolding len by simp
  ultimately show ?thesis using len [of opts] by auto
qed

subsection \<open>Three subjects, two targets, four jobs\<close>

lemma combination_jobAt:
  "combination (jobAt rootDir cs ps i) =
     (cs ! (i mod length cs), ps ! ((i div length cs) mod length ps))"
  by (simp add: combination_def jobAt_def Let_def)

lemma showcase3x2_sel:
  "selectedCategories (showcase3x2 base c1 c2 c3 p1 p2 n) = [c1, c2, c3]"
  "selectedPairs (showcase3x2 base c1 c2 c3 p1 p2 n) = [p1, p2]"
  "maxJobs (showcase3x2 base c1 c2 c3 p1 p2 n) = n"
  by (simp_all add: showcase3x2_def selectedCategories_def selectedPairs_def)

lemma len3: "length [c1, c2, c3] = 3" and len2: "length [p1, p2] = 2"
  by simp_all

lemma combination_jobAt_3x2:
  "combination (jobAt rootDir [c1, c2, c3] [p1, p2] i) =
     ([c1, c2, c3] ! (i mod 3), [p1, p2] ! ((i div 3) mod 2))"
  unfolding combination_jobAt len3 len2 ..

lemma showcase3x2_build:
  "buildJobs rootDir (showcase3x2 base c1 c2 c3 p1 p2 n) =
     map (jobAt rootDir [c1, c2, c3] [p1, p2]) [0..<nat (max 1 n)]"
  by (simp add: buildJobs_closed showcase3x2_sel)

lemma upt_0_4: "[0..<4] = [0, 1, 2, 3]" and upt_0_7: "[0..<7] = [0, 1, 2, 3, 4, 5, 6]"
  by (simp_all add: upt_rec)

lemma showcase3x2_combinations:
  "map combination (buildJobs rootDir (showcase3x2 base c1 c2 c3 p1 p2 4)) =
     [(c1, p1), (c2, p1), (c3, p1), (c1, p2)]"
  by (simp add: showcase3x2_build upt_0_4 combination_jobAt_3x2)

lemma showcase3x2_combinations7:
  "map combination (buildJobs rootDir (showcase3x2 base c1 c2 c3 p1 p2 7)) =
     [(c1, p1), (c2, p1), (c3, p1), (c1, p2), (c2, p2), (c3, p2), (c1, p1)]"
  by (simp add: showcase3x2_build upt_0_7 combination_jobAt_3x2)

text \<open>
  C5, as the code has it: three subjects and two targets with \<open>--max-jobs=4\<close> yield
  exactly four jobs, the combinations (s1,t1), (s2,t1), (s3,t1), (s1,t2) in this order.
  They are pairwise distinct exactly when the three subjects are distinct and the two
  targets differ, so nothing is repeated among four jobs: the index wraps only after the
  six combinations of the product, and the seventh job of \<open>--max-jobs=7\<close> is the first
  to repeat one (that of the first job).
\<close>

theorem showcase_3x2_max4:
  "length (buildJobs rootDir (showcase3x2 base c1 c2 c3 p1 p2 4)) = 4
   \<and> map combination (buildJobs rootDir (showcase3x2 base c1 c2 c3 p1 p2 4)) =
       [(c1, p1), (c2, p1), (c3, p1), (c1, p2)]
   \<and> distinct (map combination (buildJobs rootDir (showcase3x2 base c1 c2 c3 p1 p2 4))) =
       (distinct [c1, c2, c3] \<and> p1 \<noteq> p2)
   \<and> map combination (buildJobs rootDir (showcase3x2 base c1 c2 c3 p1 p2 7)) ! 6 =
       map combination (buildJobs rootDir (showcase3x2 base c1 c2 c3 p1 p2 7)) ! 0"
proof -
  have "length (buildJobs rootDir (showcase3x2 base c1 c2 c3 p1 p2 4)) = 4"
    by (simp add: showcase3x2_build)
  moreover have "distinct (map combination (buildJobs rootDir (showcase3x2 base c1 c2 c3 p1 p2 4)))
      = (distinct [c1, c2, c3] \<and> p1 \<noteq> p2)"
    unfolding showcase3x2_combinations by auto
  moreover have "map combination (buildJobs rootDir (showcase3x2 base c1 c2 c3 p1 p2 7)) ! 6 =
       map combination (buildJobs rootDir (showcase3x2 base c1 c2 c3 p1 p2 7)) ! 0"
    unfolding showcase3x2_combinations7 by simp
  ultimately show ?thesis using showcase3x2_combinations by blast
qed

text \<open>
  The claim as stated fails: with the categories Animals, Colors, Family, the pairs
  English-Somali and English-Spanish and \<open>--max-jobs=4\<close> the catalog has four jobs and
  no combination occurs twice.
\<close>

theorem showcase_3x2_max4_no_repeat:
  "length (buildJobs ''/repo'' (showcase3x2 defaultOptions ''Animals'' ''Colors'' ''Family''
       \<lparr>source = ''English'', target = ''Somali''\<rparr>
       \<lparr>source = ''English'', target = ''Spanish''\<rparr> 4)) = 4
   \<and> distinct (map combination (buildJobs ''/repo''
       (showcase3x2 defaultOptions ''Animals'' ''Colors'' ''Family''
       \<lparr>source = ''English'', target = ''Somali''\<rparr>
       \<lparr>source = ''English'', target = ''Spanish''\<rparr> 4)))"
  unfolding showcase3x2_combinations
  by (simp add: showcase3x2_build)

subsection \<open>Slugs and output paths\<close>

lemma replaceRuns_chars: "c \<in> set (replaceRuns b s) \<Longrightarrow> isSlugChar c \<or> c = CHR ''-''"
  by (induction b s rule: replaceRuns.induct) (auto split: if_splits)

lemma stripHyphens_subset: "set (stripHyphens s) \<subseteq> set s"
proof -
  have "set (dropWhile isHyphen (rev (dropWhile isHyphen s))) \<subseteq> set (rev (dropWhile isHyphen s))"
    by (rule set_dropWhileD[THEN subsetI]) 
  also have "\<dots> \<subseteq> set s" using set_dropWhileD by fastforce
  finally show ?thesis by (simp add: stripHyphens_def)
qed

lemma slugify_chars: "c \<in> set (slugify v) \<Longrightarrow> isSlugChar c \<or> c = CHR ''-''"
  unfolding slugify_def using stripHyphens_subset replaceRuns_chars by blast

lemma slash_not_slug: "\<not> isSlugChar (CHR ''/'')" "CHR ''/'' \<noteq> CHR ''-''"
  by (simp_all add: isSlugChar_def code_def)

lemma slugify_no_slash: "CHR ''/'' \<notin> set (slugify v)"
  using slugify_chars slash_not_slug by blast

lemma pairSlugOf_no_slash: "CHR ''/'' \<notin> set (pairSlugOf p)"
  by (simp add: pairSlugOf_def slugify_no_slash)

lemma jobAt_fields:
  "pairSlug (jobAt rootDir cs ps i) = pairSlugOf (pair (jobAt rootDir cs ps i))"
  "categorySlug (jobAt rootDir cs ps i) = slugify (category (jobAt rootDir cs ps i))"
  "outputPath (jobAt rootDir cs ps i) =
     OUTPUT_DIR rootDir @ ''/'' @ pairSlug (jobAt rootDir cs ps i) @ ''/''
       @ categorySlug (jobAt rootDir cs ps i) @ ''.png''"
  by (simp_all add: jobAt_def Let_def)

lemma split_at_first:
  assumes "a \<notin> set x" "a \<notin> set y"
  shows "(x @ a # r = y @ a # s) = (x = y \<and> r = s)"
  using assms
proof (induction x arbitrary: y)
  case Nil
  then show ?case by (cases y) auto
next
  case (Cons b x)
  then show ?case by (cases y) auto
qed

lemma joined_eq:
  assumes "a \<notin> set x" "a \<notin> set y"
  shows "(d @ [a] @ x @ [a] @ u @ e = d @ [a] @ y @ [a] @ v @ e) = (x = y \<and> u = v)"
  using split_at_first [OF assms, of "u @ e" "v @ e"] by simp

lemma jobAt_outputPath_eq:
  "(outputPath (jobAt rootDir cs ps i) = outputPath (jobAt rootDir cs ps k)) =
     (pairSlug (jobAt rootDir cs ps i) = pairSlug (jobAt rootDir cs ps k)
      \<and> categorySlug (jobAt rootDir cs ps i) = categorySlug (jobAt rootDir cs ps k))"
proof -
  have a: "CHR ''/'' \<notin> set (pairSlug (jobAt rootDir cs ps i))"
          "CHR ''/'' \<notin> set (pairSlug (jobAt rootDir cs ps k))"
    by (simp_all add: jobAt_fields(1) pairSlugOf_no_slash)
  show ?thesis
    unfolding jobAt_fields(3) using joined_eq [OF a, of "OUTPUT_DIR rootDir" _ "''.png''"] by simp
qed

lemma slug_values:
  "map slugify CATEGORIES =
    [''animals'', ''colors'', ''body-parts'', ''family'', ''food-and-drink'',
     ''numbers'', ''actions'', ''nature'', ''feelings'', ''core-responses'',
     ''home-objects'', ''daily-words'']"
  by code_simp

lemma pairSlug_values:
  "map pairSlugOf DEFAULT_LANGUAGE_PAIRS =
    [''english-somali'', ''english-spanish'', ''english-arabic'',
     ''english-french'', ''english-swahili'', ''english-amharic'']"
  by code_simp

lemma slugify_inj_builtin: "inj_on slugify (set CATEGORIES)"
proof -
  have "distinct (map slugify CATEGORIES)" unfolding slug_values by simp
  then show ?thesis by (simp add: distinct_map)
qed

lemma pairSlugOf_inj_builtin: "inj_on pairSlugOf (set DEFAULT_LANGUAGE_PAIRS)"
proof -
  have "distinct (map pairSlugOf DEFAULT_LANGUAGE_PAIRS)" unfolding pairSlug_values by simp
  then show ?thesis by (simp add: distinct_map)
qed

lemma jobAt_members:
  assumes "cs \<noteq> []" "ps \<noteq> []"
  shows "category (jobAt rootDir cs ps i) \<in> set cs" "pair (jobAt rootDir cs ps i) \<in> set ps"
  using assms by (simp_all add: jobAt_def Let_def)

lemma buildJobs_member:
  assumes "j \<in> set (buildJobs rootDir opts)"
  obtains i where "j = jobAt rootDir (selectedCategories opts) (selectedPairs opts) i"
  using assms by (auto simp: buildJobs_closed)

lemma selected_nonempty: "selectedCategories opts \<noteq> []" "selectedPairs opts \<noteq> []"
  by (auto simp: selectedCategories_def selectedPairs_def CATEGORIES_def
      DEFAULT_LANGUAGE_PAIRS_def split: option.splits)

text \<open>
  C6, as the code has it: within one catalog two jobs have the same output path exactly
  when their pair slugs and their category slugs coincide; for the built-in category and
  language-pair lists the slugs are pairwise distinct, so distinct (subject, target)
  combinations have distinct output paths.
\<close>

theorem outputPath_distinct:
  "(\<forall>j1 \<in> set (buildJobs rootDir opts). \<forall>j2 \<in> set (buildJobs rootDir opts).
      (outputPath j1 = outputPath j2) =
        (pairSlug j1 = pairSlug j2 \<and> categorySlug j1 = categorySlug j2))
   \<and> (selectedCategories opts = CATEGORIES \<and> selectedPairs opts = DEFAULT_LANGUAGE_PAIRS \<longrightarrow>
      (\<forall>j1 \<in> set (buildJobs rootDir opts). \<forall>j2 \<in> set (buildJobs rootDir opts).
          combination j1 \<noteq> combination j2 \<longrightarrow> outputPath j1 \<noteq> outputPath j2))"
proof (intro conjI ballI impI)
  fix j1 j2
  assume "j1 \<in> set (buildJobs rootDir opts)" "j2 \<in> set (buildJobs rootDir opts)"
  then show "(outputPath j1 = outputPath j2) =
        (pairSlug j1 = pairSlug j2 \<and> categorySlug j1 = categorySlug j2)"
    by (elim buildJobs_member) (simp only: jobAt_outputPath_eq)
next
  fix j1 j2
  assume sel: "selectedCategories opts = CATEGORIES \<and> selectedPairs opts = DEFAULT_LANGUAGE_PAIRS"
    and m: "j1 \<in> set (buildJobs rootDir opts)" "j2 \<in> set (buildJobs rootDir opts)"
    and ne: "combination j1 \<noteq> combination j2"
  from m sel obtain i k where
    j: "j1 = jobAt rootDir CATEGORIES DEFAULT_LANGUAGE_PAIRS i"
       "j2 = jobAt rootDir CATEGORIES DEFAULT_LANGUAGE_PAIRS k"
    by (metis buildJobs_member)
  have ne': "CATEGORIES \<noteq> []" "DEFAULT_LANGUAGE_PAIRS \<noteq> []"
    using selected_nonempty [of opts] sel by simp_all
  have c: "category j1 \<in> set CATEGORIES" "category j2 \<in> set CATEGORIES"
    and p: "pair j1 \<in> set DEFAULT_LANGUAGE_PAIRS" "pair j2 \<in> set DEFAULT_LANGUAGE_PAIRS"
    unfolding j using jobAt_members [OF ne'] by simp_all
  show "outputPath j1 \<noteq> outputPath j2"
  proof
    assume "outputPath j1 = outputPath j2"
    then have "pairSlugOf (pair j1) = pairSlugOf (pair j2)"
      and "slugify (category j1) = slugify (category j2)"
      unfolding j jobAt_outputPath_eq by (simp_all add: jobAt_fields(1,2))
    then have "pair j1 = pair j2" "category j1 = category j2"
      using c p slugify_inj_builtin pairSlugOf_inj_builtin by (auto dest: inj_onD)
    with ne show False by (simp add: combination_def)
  qed
qed

theorem outputPath_distinct_witness:
  "buildJobs ''/repo'' defaultOptions ! 0 \<in> set (buildJobs ''/repo'' defaultOptions)
   \<and> buildJobs ''/repo'' defaultOptions ! 1 \<in> set (buildJobs ''/repo'' defaultOptions)
   \<and> selectedCategories defaultOptions = CATEGORIES
   \<and> selectedPairs defaultOptions = DEFAULT_LANGUAGE_PAIRS
   \<and> combination (buildJobs ''/repo'' defaultOptions ! 0)
       \<noteq> combination (buildJobs ''/repo'' defaultOptions ! 1)
   \<and> outputPath (buildJobs ''/repo'' defaultOptions ! 0)
       \<noteq> outputPath (buildJobs ''/repo'' defaultOptions ! 1)
   \<and> (outputPath (buildJobs ''/repo'' defaultOptions ! 0)
        = outputPath (buildJobs ''/repo'' defaultOptions ! 1)) =
       (pairSlug (buildJobs ''/repo'' defaultOptions ! 0)
          = pairSlug (buildJobs ''/repo'' defaultOptions ! 1)
        \<and> categorySlug (buildJobs ''/repo'' defaultOptions ! 0)
          = categorySlug (buildJobs ''/repo'' defaultOptions ! 1))"
proof -
  have m: "buildJobs ''/repo'' defaultOptions ! 0 \<in> set (buildJobs ''/repo'' defaultOptions)"
          "buildJobs ''/repo'' defaultOptions ! 1 \<in> set (buildJobs ''/repo'' defaultOptions)"
    by (rule nth_mem, simp add: buildJobs_closed defaultOptions_def)+
  have sel: "selectedCategories defaultOptions = CATEGORIES"
            "selectedPairs defaultOptions = DEFAULT_LANGUAGE_PAIRS"
    by (simp_all add: selectedCategories_def selectedPairs_def defaultOptions_def)
  have ne: "combination (buildJobs ''/repo'' defaultOptions ! 0)
       \<noteq> combination (buildJobs ''/repo'' defaultOptions ! 1)"
    by code_simp
  show ?thesis
    using outputPath_distinct [of "''/repo''" defaultOptions] m sel ne by blast
qed

text \<open>
  The claim as stated fails for lists given on the command line: \<open>slugify\<close> folds
  case, so \<open>--categories=Animals,animals --max-jobs=2\<close> gives two jobs with distinct
  (subject, target) combinations and one output path.
\<close>

theorem outputPath_collision:
  "combination (buildJobs ''/repo'' (defaultOptions\<lparr>maxJobs := 2, categories := Some [''Animals'', ''animals'']\<rparr>) ! 0)
   \<noteq> combination (buildJobs ''/repo'' (defaultOptions\<lparr>maxJobs := 2, categories := Some [''Animals'', ''animals'']\<rparr>) ! 1)
  \<and> outputPath (buildJobs ''/repo'' (defaultOptions\<lparr>maxJobs := 2, categories := Some [''Animals'', ''animals'']\<rparr>) ! 0)
   = outputPath (buildJobs ''/repo'' (defaultOptions\<lparr>maxJobs := 2, categories := Some [''Animals'', ''animals'']\<rparr>) ! 1)"
  by code_simp

section \<open>The showcase executor: running twice\<close>

lemma assetOf_itemOf: "assetOf (itemOf j m d) = assetOf (itemOf j m' d')"
  by (simp add: assetOf_def itemOf_def)

lemma processJob_skip:
  assumes "skipExisting opts" "existsSync (files st) (outputPath j)"
  shows "processJob ep opts refs j st =
           st\<lparr>manifestItems := manifestItems st @ [itemOf j ''existing'' None],
              console := console st @ [Skipped]\<rparr>"
  using assms by (simp add: processJob_def)

lemma processJob_files_mono:
  "existsSync (files st) p \<Longrightarrow> existsSync (files (processJob ep opts refs j st)) p"
  by (auto simp: processJob_def existsSync_def split: prod.splits attempt.splits)

lemma processJob_failures_mono:
  "failures st \<le> failures (processJob ep opts refs j st)"
  by (auto simp: processJob_def split: prod.splits attempt.splits)

lemma processJob_no_failure:
  assumes "failures (processJob ep opts refs j st) = failures st"
  shows "existsSync (files (processJob ep opts refs j st)) (outputPath j)
         \<and> (\<exists>m d. manifestItems (processJob ep opts refs j st) = manifestItems st @ [itemOf j m d])"
  using assms
  by (auto simp: processJob_def existsSync_def split: prod.splits attempt.splits if_splits)

lemma processJobs_files_mono:
  "existsSync (files st) p \<Longrightarrow> existsSync (files (processJobs ep opts refs js st)) p"
  by (induction js arbitrary: st) (auto intro: processJob_files_mono)

lemma processJobs_failures_mono:
  "failures st \<le> failures (processJobs ep opts refs js st)"
proof (induction js arbitrary: st)
  case Nil
  then show ?case by simp
next
  case (Cons j js)
  have "failures st \<le> failures (processJob ep opts refs j st)"
    by (rule processJob_failures_mono)
  also have "\<dots> \<le> failures (processJobs ep opts refs js (processJob ep opts refs j st))"
    by (rule Cons.IH)
  finally show ?case by simp
qed

lemma processJobs_no_failure:
  assumes "failures (processJobs ep opts refs js st) = failures st"
  shows "(\<forall>j \<in> set js. existsSync (files (processJobs ep opts refs js st)) (outputPath j))
         \<and> (\<exists>its. manifestItems (processJobs ep opts refs js st) = manifestItems st @ its
                \<and> map assetOf its = map assetOf (existingItems js))"
  using assms
proof (induction js arbitrary: st)
  case Nil
  then show ?case by (simp add: existingItems_def)
next
  case (Cons j js)
  let ?st1 = "processJob ep opts refs j st"
  have le1: "failures st \<le> failures ?st1" by (rule processJob_failures_mono)
  have le2: "failures ?st1 \<le> failures (processJobs ep opts refs js ?st1)"
    by (rule processJobs_failures_mono)
  from Cons.prems le1 le2 have f1: "failures ?st1 = failures st"
    and f2: "failures (processJobs ep opts refs js ?st1) = failures ?st1"
    by simp_all
  from processJob_no_failure [OF f1] obtain m d where
    ex: "existsSync (files ?st1) (outputPath j)"
    and it: "manifestItems ?st1 = manifestItems st @ [itemOf j m d]"
    by blast
  from Cons.IH [OF f2] obtain its where
    all: "\<forall>j \<in> set js. existsSync (files (processJobs ep opts refs js ?st1)) (outputPath j)"
    and its: "manifestItems (processJobs ep opts refs js ?st1) = manifestItems ?st1 @ its"
    and as: "map assetOf its = map assetOf (existingItems js)"
    by blast
  have "existsSync (files (processJobs ep opts refs js ?st1)) (outputPath j)"
    using ex by (rule processJobs_files_mono)
  moreover have "manifestItems (processJobs ep opts refs (j # js) st) =
      manifestItems st @ (itemOf j m d # its)"
    using its it by simp
  moreover have "map assetOf (itemOf j m d # its) = map assetOf (existingItems (j # js))"
    using as by (simp add: existingItems_def assetOf_itemOf [of j m d "''existing''" None])
  ultimately show ?case using all by auto
qed

lemma processJobs_all_skipped:
  assumes "skipExisting opts" "\<forall>j \<in> set js. existsSync (files st) (outputPath j)"
  shows "processJobs ep opts refs js st =
           st\<lparr>manifestItems := manifestItems st @ existingItems js,
              console := console st @ replicate (length js) Skipped\<rparr>"
  using assms(2)
proof (induction js arbitrary: st)
  case Nil
  then show ?case by (simp add: existingItems_def)
next
  case (Cons j js)
  let ?st1 = "st\<lparr>manifestItems := manifestItems st @ [itemOf j ''existing'' None],
              console := console st @ [Skipped]\<rparr>"
  have s1: "processJob ep opts refs j st = ?st1"
    using Cons.prems assms(1) by (simp add: processJob_skip)
  have "\<forall>j \<in> set js. existsSync (files ?st1) (outputPath j)"
    using Cons.prems by simp
  from Cons.IH [OF this] show ?case
    by (simp add: s1 existingItems_def replicate_append_same)
qed


lemma showcase_main_completed:
  assumes "\<not> dryRun opts" "exitCode (showcase_main rootDir e opts fs) = 0"
  defines "refs \<equiv> resolveReferenceImages rootDir (referenceSet opts)"
  defines "st \<equiv> processJobs (api e) opts refs (buildJobs rootDir opts) (initState fs)"
  shows "\<forall>p \<in> set refs. existsSync fs p"
    and "truthyStr (OPENAI_API_KEY e)"
    and "failures st = 0"
    and "showcase_main rootDir e opts fs =
          \<lparr>exitCode = 0, filesAfter = files st,
           written = Some (saveManifest rootDir (now e) (manifestItems st) opts refs),
           callsMade = calls st, failureCount = 0, jobLines = console st\<rparr>"
proof -
  have m: "filter (\<lambda>p. \<not> existsSync fs p) refs = []"
    using assms(2) unfolding showcase_main_def Let_def refs_def
    by (auto simp: aborted_def split: if_splits)
  then show r: "\<forall>p \<in> set refs. existsSync fs p"
    by (simp add: filter_empty_conv)
  show k: "truthyStr (OPENAI_API_KEY e)"
    using assms(1,2) m unfolding showcase_main_def Let_def refs_def
    by (auto simp: aborted_def split: if_splits)
  have main: "showcase_main rootDir e opts fs =
          \<lparr>exitCode = (if failures st > 0 then 2 else 0), filesAfter = files st,
           written = Some (saveManifest rootDir (now e) (manifestItems st) opts refs),
           callsMade = calls st, failureCount = failures st, jobLines = console st\<rparr>"
    using assms(1) m k unfolding showcase_main_def Let_def refs_def st_def initState_def
    by simp
  with assms(2) show f: "failures st = 0"
    by (auto split: if_splits)
  with main show "showcase_main rootDir e opts fs =
          \<lparr>exitCode = 0, filesAfter = files st,
           written = Some (saveManifest rootDir (now e) (manifestItems st) opts refs),
           callsMade = calls st, failureCount = 0, jobLines = console st\<rparr>"
    by simp
qed

text \<open>
  C1, as the code has it: with skip-existing enabled, after a run that completed without a
  failure, a second run with the same options on the files the first run left makes no
  endpoint call, leaves every file as it is, has no failure, and skips every job; this
  holds whatever the endpoint would answer and whatever the clock says. Its manifest lists
  every job with method \<open>existing\<close> and no model; the first run's manifest lists the
  same assets (id, category, languages, pair slug, image path) in the same order, with
  the method and model that produced them.
\<close>

theorem showcase_rerun_skips_all:
  assumes "skipExisting opts" and "\<not> dryRun opts"
    and "exitCode (showcase_main rootDir e opts fs) = 0"
  shows "showcase_main rootDir (e\<lparr>now := t, api := a\<rparr>) opts
           (filesAfter (showcase_main rootDir e opts fs)) =
          \<lparr>exitCode = 0, filesAfter = filesAfter (showcase_main rootDir e opts fs),
           written = Some (saveManifest rootDir t (existingItems (buildJobs rootDir opts)) opts
                             (resolveReferenceImages rootDir (referenceSet opts))),
           callsMade = 0, failureCount = 0,
           jobLines = replicate (length (buildJobs rootDir opts)) Skipped\<rparr>
         \<and> (\<exists>m. written (showcase_main rootDir e opts fs) = Some m
                \<and> map assetOf (items m) = map assetOf (existingItems (buildJobs rootDir opts)))
         \<and> (\<forall>st j refs. existsSync (files st) (outputPath j) \<longrightarrow>
                processJob a opts refs j st =
                  st\<lparr>manifestItems := manifestItems st @ [itemOf j ''existing'' None],
                     console := console st @ [Skipped]\<rparr>)"
proof -
  define refs where "refs = resolveReferenceImages rootDir (referenceSet opts)"
  define jobs where "jobs = buildJobs rootDir opts"
  define st where "st = processJobs (api e) opts refs jobs (initState fs)"
  note c = showcase_main_completed [OF assms(2,3), folded refs_def jobs_def, folded st_def]
  have fs1: "filesAfter (showcase_main rootDir e opts fs) = files st"
    and w1: "written (showcase_main rootDir e opts fs) =
               Some (saveManifest rootDir (now e) (manifestItems st) opts refs)"
    by (simp_all add: c(4))
  have "failures st = failures (initState fs)"
    using c(3) by (simp add: initState_def)
  from processJobs_no_failure [OF this [unfolded st_def], folded st_def]
  obtain its where out: "\<forall>j \<in> set jobs. existsSync (files st) (outputPath j)"
    and its: "manifestItems st = its" "map assetOf its = map assetOf (existingItems jobs)"
    by (auto simp: initState_def)
  have refs_ok: "filter (\<lambda>p. \<not> existsSync (files st) p) refs = []"
    using c(1) unfolding st_def filter_empty_conv
    by (auto intro!: processJobs_files_mono simp: initState_def)
  have skip: "processJobs a opts refs jobs (initState (files st)) =
        (initState (files st))\<lparr>manifestItems := existingItems jobs,
                              console := replicate (length jobs) Skipped\<rparr>"
    using processJobs_all_skipped [OF assms(1), of jobs "initState (files st)" a refs] out
    by (simp add: initState_def)
  have "showcase_main rootDir (e\<lparr>now := t, api := a\<rparr>) opts (files st) =
          \<lparr>exitCode = 0, filesAfter = files st,
           written = Some (saveManifest rootDir t (existingItems jobs) opts refs),
           callsMade = 0, failureCount = 0, jobLines = replicate (length jobs) Skipped\<rparr>"
    using refs_ok c(2) assms(2) skip
    unfolding showcase_main_def Let_def refs_def [symmetric] jobs_def [symmetric]
      initState_def [symmetric]
    by (simp add: initState_def)
  moreover have "map assetOf (items (saveManifest rootDir (now e) (manifestItems st) opts refs))
      = map assetOf (existingItems jobs)"
    using its by (simp add: saveManifest_def)
  ultimately show ?thesis
    unfolding fs1 w1 refs_def jobs_def using processJob_skip [OF assms(1)] by simp
qed


lemma example_first_run: "exitCode (showcase_main ''/repo'' exampleEnv exampleOptions exampleFiles) = 0"
  by code_simp

theorem showcase_rerun_skips_all_witness:
  "skipExisting exampleOptions \<and> \<not> dryRun exampleOptions
   \<and> exitCode (showcase_main ''/repo'' exampleEnv exampleOptions exampleFiles) = 0
   \<and> callsMade (showcase_main ''/repo''
         (exampleEnv\<lparr>now := ''2026-01-02T00:00:00.000Z'', api := alwaysRejects\<rparr>) exampleOptions
         (filesAfter (showcase_main ''/repo'' exampleEnv exampleOptions exampleFiles))) = 0
   \<and> exitCode (showcase_main ''/repo''
         (exampleEnv\<lparr>now := ''2026-01-02T00:00:00.000Z'', api := alwaysRejects\<rparr>) exampleOptions
         (filesAfter (showcase_main ''/repo'' exampleEnv exampleOptions exampleFiles))) = 0
   \<and> jobLines (showcase_main ''/repo''
         (exampleEnv\<lparr>now := ''2026-01-02T00:00:00.000Z'', api := alwaysRejects\<rparr>) exampleOptions
         (filesAfter (showcase_main ''/repo'' exampleEnv exampleOptions exampleFiles))) = [Skipped]"
proof -
  have h1: "skipExisting exampleOptions" and h2: "\<not> dryRun exampleOptions"
    by (simp_all add: exampleOptions_def defaultOptions_def)
  have n: "length (buildJobs ''/repo'' exampleOptions) = 1"
    by (simp add: buildJobs_closed exampleOptions_def)
  show ?thesis
    using showcase_rerun_skips_all [OF h1 h2 example_first_run,
        where t = "''2026-01-02T00:00:00.000Z''" and a = alwaysRejects]
      h1 h2 example_first_run n
    by simp
qed

text \<open>
  The claim as stated fails on the manifest: the first run records the asset it generated
  with method \<open>edit\<close> and the edit model, the second run records it with method
  \<open>existing\<close> and no model, so the two documents differ even under one clock value.
\<close>

theorem showcase_rerun_manifest_differs:
  "skipExisting exampleOptions \<and> \<not> dryRun exampleOptions
   \<and> exitCode (showcase_main ''/repo'' exampleEnv exampleOptions exampleFiles) = 0
   \<and> written (showcase_main ''/repo'' exampleEnv exampleOptions
         (filesAfter (showcase_main ''/repo'' exampleEnv exampleOptions exampleFiles)))
       \<noteq> written (showcase_main ''/repo'' exampleEnv exampleOptions exampleFiles)"
  by code_simp

section \<open>The cost estimators are homogeneous\<close>

subsection \<open>Rounding to a double commutes with doubling\<close>

lemma pow2_Suc: "(2::rat) powi (k + 1) = 2 * 2 powi k"
  by (subst power_int_add) simp_all

lemma pow2_diff: "(2::rat) powi m / 2 powi n = 2 powi (m - n)"
  by (simp add: power_int_diff)

lemma bitlen_powi:
  assumes "0 < a"
  shows "(2::rat) powi (bitlen a - 1) \<le> of_int a" "(of_int a :: rat) < 2 powi (bitlen a)"
proof -
  from assms have b1: "bitlen a \<ge> 1" by (auto simp: bitlen_alt_def)
  from bitlen_bounds [OF assms] have lo: "2 ^ nat (bitlen a - 1) \<le> a" and hi: "a < 2 ^ nat (bitlen a)"
    by simp_all
  have "(of_int (2 ^ nat (bitlen a - 1)) :: rat) \<le> of_int a" using lo by (simp only: of_int_le_iff)
  then show "(2::rat) powi (bitlen a - 1) \<le> of_int a"
    using b1 by (simp add: power_int_nonneg_exp)
  have "(of_int a :: rat) < of_int (2 ^ nat (bitlen a))" using hi by (simp only: of_int_less_iff)
  then show "(of_int a :: rat) < 2 powi (bitlen a)"
    using b1 by (simp add: power_int_nonneg_exp)
qed

lemma expo_bounds:
  assumes "0 < x"
  shows "2 powi (expo x) \<le> x" "x < 2 powi (expo x + 1)"
proof -
  obtain a b where q: "quotient_of x = (a, b)" by (cases "quotient_of x")
  then have b: "0 < b" and x: "x = of_int a / of_int b"
    by (simp_all add: quotient_of_denom_pos quotient_of_div)
  with assms have a: "0 < a" by (simp add: zero_less_divide_iff)
  define e0 where "e0 = bitlen a - bitlen b"
  have p: "\<And>k. (0::rat) < 2 powi k" by simp
  have "x < 2 powi (bitlen a) / 2 powi (bitlen b - 1)"
    unfolding x using bitlen_powi [OF a] bitlen_powi [OF b] a b
    by (intro frac_less) simp_all
  also have "\<dots> = 2 powi (bitlen a - (bitlen b - 1))"
    by (rule pow2_diff)
  also have "bitlen a - (bitlen b - 1) = e0 + 1"
    by (simp add: e0_def)
  finally have up: "x < 2 powi (e0 + 1)" .
  have "2 powi (bitlen a - 1) / 2 powi (bitlen b) < x"
    unfolding x using bitlen_powi [OF a] bitlen_powi [OF b] a b p
    by (intro frac_less2) simp_all
  moreover have "2 powi (bitlen a - 1) / 2 powi (bitlen b) = (2::rat) powi (e0 - 1)"
  proof -
    have "2 powi (bitlen a - 1) / 2 powi (bitlen b) = (2::rat) powi (bitlen a - 1 - bitlen b)"
      by (rule pow2_diff)
    also have "bitlen a - 1 - bitlen b = e0 - 1" by (simp add: e0_def)
    finally show ?thesis .
  qed
  ultimately have lo: "2 powi (e0 - 1) < x" by simp
  have e: "expo x = (if 2 powi e0 \<le> x then e0 else e0 - 1)"
    by (simp add: expo_def q e0_def Let_def)
  show "2 powi (expo x) \<le> x" using lo by (simp add: e)
  show "x < 2 powi (expo x + 1)" using up by (auto simp: e not_le)
qed


lemma expo_unique:
  assumes "0 < x" "2 powi e \<le> x" "x < 2 powi (e + 1)"
  shows "expo x = e"
proof (rule ccontr)
  assume ne: "expo x \<noteq> e"
  note b = expo_bounds [OF assms(1)]
  show False
  proof (cases "expo x < e")
    case True
    then have "(2::rat) powi (expo x + 1) \<le> 2 powi e"
      by (intro power_int_increasing) simp_all
    with b(2) assms(2) show False by simp
  next
    case False
    with ne have "e + 1 \<le> expo x" by simp
    then have "(2::rat) powi (e + 1) \<le> 2 powi (expo x)"
      by (intro power_int_increasing) simp_all
    with b(1) assms(3) show False by simp
  qed
qed

lemma expo_double:
  assumes "0 < x"
  shows "expo (2 * x) = expo x + 1"
proof (rule expo_unique)
  note b = expo_bounds [OF assms]
  show "0 < 2 * x" using assms by simp
  show "2 powi (expo x + 1) \<le> 2 * x" unfolding pow2_Suc using b(1) by simp
  show "2 * x < 2 powi (expo x + 1 + 1)"
    unfolding pow2_Suc using b(2) [unfolded pow2_Suc] by simp
qed

lemma roundDouble_double: "roundDouble (2 * x) = 2 * roundDouble x"
proof (cases "x = 0")
  case True
  then show ?thesis by (simp add: roundDouble_def)
next
  case False
  then have pos: "0 < \<bar>x\<bar>" by simp
  have e: "expo \<bar>2 * x\<bar> = expo \<bar>x\<bar> + 1"
    using expo_double [OF pos] by (simp add: abs_mult)
  have m: "\<bar>2 * x\<bar> * 2 powi (52 - (expo \<bar>x\<bar> + 1)) = \<bar>x\<bar> * 2 powi (52 - expo \<bar>x\<bar>)"
  proof -
    have "(2::rat) powi (52 - expo \<bar>x\<bar>) = 2 powi ((52 - (expo \<bar>x\<bar> + 1)) + 1)"
      by (simp add: algebra_simps)
    also have "\<dots> = 2 * 2 powi (52 - (expo \<bar>x\<bar> + 1))"
      by (subst power_int_add) simp_all
    finally show ?thesis by (simp add: abs_mult)
  qed
  have p: "(2::rat) powi (expo \<bar>x\<bar> + 1 - 52) = 2 * 2 powi (expo \<bar>x\<bar> - 52)"
  proof -
    have "(2::rat) powi (expo \<bar>x\<bar> + 1 - 52) = 2 powi ((expo \<bar>x\<bar> - 52) + 1)"
      by (simp add: algebra_simps)
    also have "\<dots> = 2 * 2 powi (expo \<bar>x\<bar> - 52)"
      by (subst power_int_add) simp_all
    finally show ?thesis .
  qed
  have sg: "sgn (2 * x) = sgn x" by (simp add: sgn_mult)
  show ?thesis
    using False unfolding roundDouble_def Let_def e m p sg by simp
qed


lemma roundEven_of_int: "roundEven (of_int m) = m"
  by (simp add: roundEven_def)

lemma roundEven_range:
  assumes "of_int lo \<le> q" "q < of_int hi"
  shows "lo \<le> roundEven q" "roundEven q \<le> hi"
proof -
  have f1: "lo \<le> \<lfloor>q\<rfloor>" using assms(1) by (simp add: le_floor_iff)
  have f2: "\<lfloor>q\<rfloor> < hi" using assms(2) by (simp add: floor_less_iff)
  have "roundEven q = \<lfloor>q\<rfloor> \<or> roundEven q = \<lfloor>q\<rfloor> + 1"
    by (auto simp: roundEven_def Let_def)
  with f1 f2 show "lo \<le> roundEven q" "roundEven q \<le> hi" by auto
qed

lemma pow2_cancel: "(2::rat) powi (e - 52) * 2 powi (52 - e) = 1"
proof -
  have "(2::rat) powi (e - 52) * 2 powi (52 - e) = 2 powi ((e - 52) + (52 - e))"
    by (subst power_int_add) simp_all
  then show ?thesis by simp
qed

lemma scaled_range:
  assumes "0 < x"
  shows "2 ^ 52 \<le> x * 2 powi (52 - expo x)" "x * 2 powi (52 - expo x) < 2 ^ 53"
proof -
  note b = expo_bounds [OF assms]
  have p: "(0::rat) < 2 powi (52 - expo x)" by simp
  have "2 powi (expo x) * 2 powi (52 - expo x) = (2::rat) powi (expo x + (52 - expo x))"
    by (subst power_int_add) simp_all
  then have lo: "2 powi (expo x) * 2 powi (52 - expo x) = (2::rat) ^ 52" by simp
  have "2 powi (expo x + 1) * 2 powi (52 - expo x) = (2::rat) powi ((expo x + 1) + (52 - expo x))"
    by (subst power_int_add) simp_all
  then have hi: "2 powi (expo x + 1) * 2 powi (52 - expo x) = (2::rat) ^ 53" by simp
  show "2 ^ 52 \<le> x * 2 powi (52 - expo x)"
    using mult_right_mono [OF b(1), of "2 powi (52 - expo x)"] p unfolding lo by simp
  show "x * 2 powi (52 - expo x) < 2 ^ 53"
    using mult_strict_right_mono [OF b(2) p] unfolding hi by simp
qed

lemma roundDouble_pos:
  assumes "0 < x"
  shows "roundDouble x = of_int (roundEven (x * 2 powi (52 - expo x))) * 2 powi (expo x - 52)"
  using assms by (simp add: roundDouble_def Let_def)

lemma roundDouble_idem_pos:
  assumes "0 < x"
  shows "0 < roundDouble x" "roundDouble (roundDouble x) = roundDouble x"
proof -
  define e where "e = expo x"
  define m where "m = roundEven (x * 2 powi (52 - e))"
  define y where "y = roundDouble x"
  have y: "y = of_int m * 2 powi (e - 52)"
    unfolding y_def m_def e_def by (rule roundDouble_pos [OF assms])
  have "of_int (2 ^ 52) \<le> x * 2 powi (52 - e)" "x * 2 powi (52 - e) < of_int (2 ^ 53)"
    using scaled_range [OF assms] unfolding e_def by simp_all
  from roundEven_range [OF this] have m: "2 ^ 52 \<le> m" "m \<le> 2 ^ 53"
    unfolding m_def by simp_all
  have ypos: "0 < y" unfolding y using m by (simp add: zero_less_mult_iff)
  then show "0 < roundDouble x" by (simp add: y_def)
  have lo_e: "(2::rat) ^ 52 * 2 powi (e - 52) = 2 powi e"
  proof -
    have "(2::rat) powi 52 * 2 powi (e - 52) = 2 powi (52 + (e - 52))"
      by (subst power_int_add) simp_all
    then show ?thesis by simp
  qed
  have hi_e: "(2::rat) ^ 53 * 2 powi (e - 52) = 2 powi (e + 1)"
  proof -
    have "(2::rat) powi 53 * 2 powi (e - 52) = 2 powi (53 + (e - 52))"
      by (subst power_int_add) simp_all
    then show ?thesis by (simp add: algebra_simps)
  qed
  have "roundDouble y = y"
  proof (cases "m < 2 ^ 53")
    case True
    have mr: "(2::rat) ^ 52 \<le> of_int m" "(of_int m :: rat) < 2 ^ 53"
    proof -
      have "(of_int (2 ^ 52) :: rat) \<le> of_int m" using m(1) by (simp only: of_int_le_iff)
      then show "(2::rat) ^ 52 \<le> of_int m" by simp
      have "(of_int m :: rat) < of_int (2 ^ 53)" using True by (simp only: of_int_less_iff)
      then show "(of_int m :: rat) < 2 ^ 53" by simp
    qed
    have "2 powi e \<le> y"
      unfolding y lo_e [symmetric] using mr(1) by (intro mult_right_mono) simp_all
    moreover have "y < 2 powi (e + 1)"
      unfolding y hi_e [symmetric] using mr(2) by (intro mult_strict_right_mono) simp_all
    ultimately have ey: "expo y = e" by (rule expo_unique [OF ypos])
    have ym: "y * 2 powi (52 - e) = of_int m"
      unfolding y using pow2_cancel [of e] by (simp add: mult.assoc)
    have "roundDouble y = of_int (roundEven (y * 2 powi (52 - e))) * 2 powi (e - 52)"
      using roundDouble_pos [OF ypos] by (simp only: ey)
    also have "\<dots> = of_int m * 2 powi (e - 52)"
      by (simp only: ym roundEven_of_int)
    also have "\<dots> = y" by (simp only: y)
    finally show ?thesis .
  next
    case False
    with m have m53: "m = 2 ^ 53" by simp
    have y2: "y = 2 powi (e + 1)" unfolding y m53 using hi_e by simp
    have "2 powi (e + 1) \<le> y" unfolding y2 by simp
    moreover have "y < 2 powi (e + 1 + 1)"
      unfolding y2 pow2_Suc by simp
    ultimately have ey: "expo y = e + 1" by (rule expo_unique [OF ypos])
    have "y * 2 powi (52 - (e + 1)) = 2 powi ((e + 1) + (52 - (e + 1)))"
      unfolding y2 by (subst power_int_add) simp_all
    then have "y * 2 powi (52 - (e + 1)) = of_int (2 ^ 52)" by simp
    then have r: "roundEven (y * 2 powi (52 - (e + 1))) = 2 ^ 52"
      by (simp only: roundEven_of_int)
    have "of_int (2 ^ 52) * 2 powi (e + 1 - 52) = (2::rat) powi 52 * 2 powi (e + 1 - 52)"
      by simp
    also have "\<dots> = 2 powi (52 + (e + 1 - 52))"
      by (subst power_int_add) simp_all
    also have "52 + (e + 1 - 52) = e + 1" by simp
    finally have scaled: "of_int (2 ^ 52) * 2 powi (e + 1 - 52) = (2::rat) powi (e + 1)" .
    have "roundDouble y = of_int (roundEven (y * 2 powi (52 - (e + 1)))) * 2 powi (e + 1 - 52)"
      using roundDouble_pos [OF ypos] by (simp only: ey)
    also have "\<dots> = of_int (2 ^ 52) * 2 powi (e + 1 - 52)"
      by (simp only: r)
    also have "\<dots> = y" by (simp only: scaled y2)
    finally show ?thesis .
  qed
  then show "roundDouble (roundDouble x) = roundDouble x" by (simp add: y_def)
qed

lemma roundDouble_idem_nonneg:
  assumes "0 \<le> x"
  shows "roundDouble (roundDouble x) = roundDouble x"
proof (cases "x = 0")
  case True
  then show ?thesis by (simp add: roundDouble_def)
next
  case False
  with assms have "0 < x" by simp
  then show ?thesis by (rule roundDouble_idem_pos)
qed

lemma literal_pos: "0 < q \<Longrightarrow> 0 < literal q"
  unfolding literal_def by (rule roundDouble_idem_pos)

lemma dmul_double:
  "dmul (of_nat (2 * n)) c = 2 * dmul (of_nat n) c"
proof -
  have "of_nat (2 * n) * c = 2 * (of_nat n * c)" by simp
  then show ?thesis unfolding dmul_def by (simp only: roundDouble_double)
qed

lemma dmul_two:
  assumes "0 \<le> c"
  shows "dmul 2 (dmul (of_nat n) c) = 2 * dmul (of_nat n) c"
proof -
  have "0 \<le> of_nat n * c" using assms by simp
  then have "roundDouble (roundDouble (of_nat n * c)) = roundDouble (of_nat n * c)"
    by (rule roundDouble_idem_nonneg)
  then show ?thesis unfolding dmul_def by (simp only: roundDouble_double)
qed

text \<open>
  C7: for every job count \<open>n\<close>, \<open>estimate(2*n).estimated\<close> equals
  \<open>2 * estimate(n).estimated\<close>, the product on the right taken in double arithmetic as
  the program would and also exactly; each of \<open>min\<close>, \<open>max\<close> and \<open>estimated\<close> is the
  double product of \<open>n\<close> and a fixed per-unit rate. This holds for both estimators; each is
  a function of the count alone.
\<close>

theorem estimateCost_linear:
  "estimated (estimateCost (2 * n)) = dmul 2 (estimated (estimateCost n))
   \<and> estimated (estimateCost (2 * n)) = 2 * estimated (estimateCost n)
   \<and> estimated (estimateCost n) = dmul (of_nat n) (literal (4 / 100))
   \<and> minCost (estimateCost n) = dmul (of_nat n) (literal (2 / 100))
   \<and> maxCost (estimateCost n) = dmul (of_nat n) (literal (5 / 100))
   \<and> scEstimated (showcase_estimateCost (2 * n)) = dmul 2 (scEstimated (showcase_estimateCost n))
   \<and> scEstimated (showcase_estimateCost (2 * n)) = 2 * scEstimated (showcase_estimateCost n)
   \<and> scEstimated (showcase_estimateCost n) = dmul (of_nat n) (literal (5 / 100))
   \<and> scMin (showcase_estimateCost n) = dmul (of_nat n) (literal (3 / 100))
   \<and> scMax (showcase_estimateCost n) = dmul (of_nat n) (literal (8 / 100))"
proof -
  have a: "(0::rat) \<le> literal (4 / 100)" "(0::rat) \<le> literal (5 / 100)"
    using literal_pos [of "4 / 100"] literal_pos [of "5 / 100"] by simp_all
  have e: "estimated (estimateCost k) = dmul (of_nat k) (literal (4 / 100))"
    "minCost (estimateCost k) = dmul (of_nat k) (literal (2 / 100))"
    "maxCost (estimateCost k) = dmul (of_nat k) (literal (5 / 100))" for k
    by (simp_all add: estimateCost_def Let_def)
  have s: "scEstimated (showcase_estimateCost k) = dmul (of_nat k) (literal (5 / 100))"
    "scMin (showcase_estimateCost k) = dmul (of_nat k) (literal (3 / 100))"
    "scMax (showcase_estimateCost k) = dmul (of_nat k) (literal (8 / 100))" for k
    by (simp_all add: showcase_estimateCost_def Let_def)
  have "estimated (estimateCost (2 * n)) = 2 * estimated (estimateCost n)"
    unfolding e by (rule dmul_double)
  moreover have "estimated (estimateCost (2 * n)) = dmul 2 (estimated (estimateCost n))"
    unfolding e by (simp only: dmul_double dmul_two [OF a(1)])
  moreover have "scEstimated (showcase_estimateCost (2 * n)) =
      2 * scEstimated (showcase_estimateCost n)"
    unfolding s by (rule dmul_double)
  moreover have "scEstimated (showcase_estimateCost (2 * n)) =
      dmul 2 (scEstimated (showcase_estimateCost n))"
    unfolding s by (simp only: dmul_double dmul_two [OF a(2)])
  ultimately show ?thesis using e [of n] s [of n] by blast
qed

section \<open>The prompt composers\<close>

lemma STYLE_GUIDE_length: "length STYLE_GUIDE = 780"
  by code_simp

lemma showcase_buildPrompt_text:
  "showcase_buildPrompt j =
     ''Use case: illustration-story. Asset type: toddler language app category illustration. ''
     @ ''Primary request: create a clean educational visual for the category '' @ [CHR 0x22]
     @ category j @ [CHR 0x22] @ '' for '' @ source (pair j) @ '' + '' @ target (pair j) @ ''. ''
     @ ''Use the attached reference images only as style and composition guidance. ''
     @ ''Preserve the same child-friendly visual language: rounded flat icons, soft pastel palette, clear spacing, minimal clutter. ''
     @ ''Include 4 to 6 objects that are unmistakably tied to the category. ''
     @ ''White background, no app frame, no overlays, no decorative UI chrome. ''
     @ ''No text, no letters, no numbers, no logo, no watermark. ''
     @ ''Cultural fit: choose objects that feel familiar and respectful for '' @ target (pair j)
     @ ''-speaking households.''"
  by (simp add: showcase_buildPrompt_def)

text \<open>
  C8, as the code has it. The composer of \<open>illustration-prompts.js\<close> returns the
  subject's descriptive text, then \<open>". "\<close>, then the shared style guide verbatim; it is a
  function of the object alone with no failing case, and with an empty descriptive text
  the result is \<open>". "\<close> followed by the style guide (780 characters). The composer of the
  showcase generator does not use the shared style guide: it returns nine fixed sentences
  joined by single spaces, with the quoted category name and the names of the two
  languages inserted in the third sentence and the name of the target language in the
  last one.
\<close>

theorem prompt_composers_output:
  "buildPrompt obj = prompt obj @ ''. '' @ STYLE_GUIDE
   \<and> buildPrompt (obj\<lparr>prompt := []\<rparr>) = ''. '' @ STYLE_GUIDE
   \<and> prefix (prompt obj) (buildPrompt obj)
   \<and> suffix STYLE_GUIDE (buildPrompt obj)
   \<and> length STYLE_GUIDE = 780
   \<and> showcase_buildPrompt j =
     ''Use case: illustration-story. Asset type: toddler language app category illustration. ''
     @ ''Primary request: create a clean educational visual for the category '' @ [CHR 0x22]
     @ category j @ [CHR 0x22] @ '' for '' @ source (pair j) @ '' + '' @ target (pair j) @ ''. ''
     @ ''Use the attached reference images only as style and composition guidance. ''
     @ ''Preserve the same child-friendly visual language: rounded flat icons, soft pastel palette, clear spacing, minimal clutter. ''
     @ ''Include 4 to 6 objects that are unmistakably tied to the category. ''
     @ ''White background, no app frame, no overlays, no decorative UI chrome. ''
     @ ''No text, no letters, no numbers, no logo, no watermark. ''
     @ ''Cultural fit: choose objects that feel familiar and respectful for '' @ target (pair j)
     @ ''-speaking households.''"
proof -
  have "buildPrompt obj = prompt obj @ ''. '' @ STYLE_GUIDE"
    by (simp add: buildPrompt_def)
  moreover have "buildPrompt (obj\<lparr>prompt := []\<rparr>) = ''. '' @ STYLE_GUIDE"
    by (simp add: buildPrompt_def)
  moreover have "prefix (prompt obj) (buildPrompt obj)"
    by (simp add: buildPrompt_def)
  moreover have "suffix STYLE_GUIDE (buildPrompt obj)"
    unfolding buildPrompt_def suffix_def by (rule exI [of _ "prompt obj @ ''. ''"]) simp
  ultimately show ?thesis
    using STYLE_GUIDE_length showcase_buildPrompt_text [of j] by blast
qed

text \<open>
  The claim as stated fails for the composer of the showcase generator: the prompt of the
  first job of the default catalog does not contain the shared style guide and does not
  begin with the subject's text.
\<close>

theorem showcase_prompt_without_style_guide:
  "\<not> sublist STYLE_GUIDE (showcase_buildPrompt firstJob)
   \<and> \<not> prefix (category firstJob) (showcase_buildPrompt firstJob)"
  by code_simp

section \<open>The fallback path\<close>

lemma tryGenerate_rejected:
  "gen n ((buildGenerateOptions m)\<lparr>gPrompt := Some p\<rparr>) = GenRejected e \<Longrightarrow>
   tryGenerate gen n m p = Threw e"
  by (simp add: tryGenerate_def)

lemma generateIllustration_calls:
  "snd (generateIllustration gen n obj m) = n + 1 \<or> snd (generateIllustration gen n obj m) = n + 2"
  by (auto simp: generateIllustration_def Let_def split: attempt.splits prod.splits)

lemma generateIllustration_fallback_only_404:
  assumes "snd (generateIllustration gen n obj m) = n + 2"
  shows "isGptImage15 m \<and> (\<exists>e. tryGenerate gen n m (buildPrompt obj) = Threw e \<and> is404 e)"
  using assms
  by (auto simp: generateIllustration_def Let_def split: attempt.splits prod.splits if_splits)

lemma generateIllustration_no_fallback:
  assumes "tryGenerate gen n m (buildPrompt obj) = Threw e" "\<not> is404 e"
  shows "generateIllustration gen n obj m = (Failure (formatError e), n + 1)"
  using assms by (simp add: generateIllustration_def Let_def)

lemma generateResult_rejected:
  assumes "ep n (ImagesEdit (editModel opts) refs (showcase_buildPrompt j) (imageSize opts)) = Rejected e"
  shows "generateResult ep n refs j opts =
          (if allowFallback opts then (generateFallback ep (n + 1) j opts, n + 2)
           else (Threw (newError (''edit failed: '' @ showcase_formatError e)), n + 1))"
  using assms by (simp add: generateResult_def generateFromEdit_def)

text \<open>
  C3, as the code has it. In the illustration adapter a primary failure that is not a 404
  fails the job at once, after one call; two calls are made only after a 404 on a
  \<open>gpt-image-1.5\<close> model, and never more than two. In the showcase executor the
  kind of the primary failure is not looked at: when the edit call fails, the fallback is
  called if and only if \<open>allowFallback\<close> is set.
\<close>

theorem fallback_policy:
  "(gen n ((buildGenerateOptions m)\<lparr>gPrompt := Some (buildPrompt obj)\<rparr>) = GenRejected e
      \<and> \<not> is404 e
     \<longrightarrow> generateIllustration gen n obj m = (Failure (formatError e), n + 1))
   \<and> (snd (generateIllustration gen n obj m) = n + 2
     \<longrightarrow> isGptImage15 m \<and> (\<exists>e'. tryGenerate gen n m (buildPrompt obj) = Threw e' \<and> is404 e'))
   \<and> (snd (generateIllustration gen n obj m) = n + 1
        \<or> snd (generateIllustration gen n obj m) = n + 2)
   \<and> (ep n (ImagesEdit (editModel opts) refs (showcase_buildPrompt j) (imageSize opts))
        = Rejected e
     \<longrightarrow> generateResult ep n refs j opts =
          (if allowFallback opts then (generateFallback ep (n + 1) j opts, n + 2)
           else (Threw (newError (''edit failed: '' @ showcase_formatError e)), n + 1)))"
  using generateIllustration_calls [of gen n obj m]
    generateIllustration_fallback_only_404 [of gen n obj m]
    generateIllustration_no_fallback [of gen n m obj e]
    tryGenerate_rejected [where gen = gen and n = n and m = m and p = "buildPrompt obj" and e = e]
    generateResult_rejected [of ep n opts refs j e]
  by blast

lemma auth_not_404: "\<not> is404 authError" by code_simp
lemma notFound_404: "is404 notFoundError" by code_simp

theorem fallback_policy_witness:
  "genAuthFails 0 ((buildGenerateOptions DEFAULT_MODEL)\<lparr>gPrompt := Some (buildPrompt (hd OBJECTS))\<rparr>)
      = GenRejected authError
   \<and> \<not> is404 authError
   \<and> generateIllustration genAuthFails 0 (hd OBJECTS) DEFAULT_MODEL
       = (Failure (formatError authError), 0 + 1)
   \<and> snd (generateIllustration genOnlyFallbackModel 0 (hd OBJECTS) DEFAULT_MODEL) = 0 + 2
   \<and> isGptImage15 DEFAULT_MODEL
   \<and> rejectEdits 0 (ImagesEdit (editModel fallbackOptions) [] (showcase_buildPrompt firstJob)
         (imageSize fallbackOptions)) = Rejected authError
   \<and> generateResult rejectEdits 0 [] firstJob fallbackOptions =
        (generateFallback rejectEdits (0 + 1) firstJob fallbackOptions, 0 + 2)"
proof -
  have h1: "genAuthFails 0 ((buildGenerateOptions DEFAULT_MODEL)\<lparr>gPrompt := Some (buildPrompt (hd OBJECTS))\<rparr>)
      = GenRejected authError"
    by (simp add: genAuthFails_def)
  have h2: "snd (generateIllustration genOnlyFallbackModel 0 (hd OBJECTS) DEFAULT_MODEL) = 0 + 2"
    by code_simp
  have h3: "rejectEdits 0 (ImagesEdit (editModel fallbackOptions) [] (showcase_buildPrompt firstJob)
         (imageSize fallbackOptions)) = Rejected authError"
    by (simp add: rejectEdits_def)
  have h4: "allowFallback fallbackOptions"
    by (simp add: fallbackOptions_def)
  show ?thesis
    using fallback_policy [where gen = genAuthFails and n = 0 and m = DEFAULT_MODEL
        and obj = "hd OBJECTS" and e = authError and ep = rejectEdits
        and opts = fallbackOptions and refs = "[]" and j = firstJob]
      fallback_policy [where gen = genOnlyFallbackModel and n = 0 and m = DEFAULT_MODEL
        and obj = "hd OBJECTS" and e = authError and ep = rejectEdits
        and opts = fallbackOptions and refs = "[]" and j = firstJob]
      h1 h2 h3 h4 auth_not_404
    by simp
qed

text \<open>
  The claim as stated fails in the showcase executor: with \<open>--allow-fallback\<close> an
  edit call rejected with status 401, which is no 404, is followed by the fallback call,
  and the job is saved from the fallback.
\<close>

theorem showcase_fallback_on_any_error:
  "allowFallback fallbackOptions
   \<and> rejectEdits 0 (ImagesEdit (editModel fallbackOptions) [] (showcase_buildPrompt firstJob)
         (imageSize fallbackOptions)) = Rejected authError
   \<and> \<not> is404 authError
   \<and> snd (generateResult rejectEdits 0 [] firstJob fallbackOptions) = 2
   \<and> console (processJob rejectEdits fallbackOptions [] firstJob (initState Map.empty))
       = [Saved ''generate-fallback'']
   \<and> failures (processJob rejectEdits fallbackOptions [] firstJob (initState Map.empty)) = 0"
  by code_simp

section \<open>Exit status\<close>

text \<open>
  The showcase executor ends with status 2 exactly when a job failed. The illustration
  executor ends with 0 or 1 only: 1 from \<open>process.exit(1)\<close> before any job runs, 0 once
  the loop has been entered.
\<close>

lemma showcase_exit_code:
  "(exitCode (showcase_main rootDir e opts fs) = 2) =
     (failureCount (showcase_main rootDir e opts fs) > 0)"
  by (simp add: showcase_main_def Let_def aborted_def)

lemma illustrations_exit_code:
  "ilExitCode (illustrations_main rootDir e opts w) = 0
   \<or> ilExitCode (illustrations_main rootDir e opts w) = 1"
  by (auto simp: illustrations_main_def Let_def ilStopped_def objectsToGenerate_def
      split: sum.splits option.splits)

text \<open>
  C2 at the failing input: the illustration generator run with \<open>--only=cat,dog\<close>, where
  the image for \<open>cat\<close> is generated and the request for \<open>dog\<close> fails, completes with
  one success and one failure and exits with status 0, not with the partial-failure
  status 2.
\<close>

theorem illustrations_partial_failure_exits_0:
  "successCount (the (lastRun (illustrations_main ''/repo'' catDogEnv catDogOptions emptyWorld))) = 1
   \<and> failCount (the (lastRun (illustrations_main ''/repo'' catDogEnv catDogOptions emptyWorld))) = 1
   \<and> ilExitCode (illustrations_main ''/repo'' catDogEnv catDogOptions emptyWorld) = 0"
  by code_simp

section \<open>The translation runner fills every targeted cell\<close>
































section \<open>Selections that match nothing\<close>









end
